theory Spec2Isabelle
  imports Complex_Main "HOL-Library.Word"
begin

section \<open>A shallow embedding of the CloudSight client (cloudsight.go, oauth.go)\<close>

text \<open>
  The client talks to four things outside itself: the clock (\<open>time.Now\<close>, \<open>time.Sleep\<close>),
  the random source (\<open>crypto/rand\<close>), the HTTP transport (\<open>http.DefaultClient.Do\<close>) and
  pure functions of Go's standard library (hashing, escaping, encoding). The first three
  are fields of an explicit \<open>world\<close> that every operation takes and returns; the pure
  library functions are the fields of a record \<open>stdlib\<close> that every operation takes as a
  parameter, so that each theorem holds for whatever these functions compute.

  What is not modelled: the per-job mutex \<open>mu\<close> (a run of the model is sequential, where
  \<open>Lock\<close>/\<open>Unlock\<close> have no effect; a \<open>Job\<close> is one built by \<open>doImageRequest\<close>, whose
  \<open>mu\<close> is allocated), console output (\<open>fmt.Println\<close>), and the range of
  \<open>time.Duration\<close> (64-bit nanoseconds, about 292 years: the only difference of instants
  the code computes is \<open>waitUntil.Sub(now)\<close>, at most four seconds for a job whose
  \<open>createdAt\<close> was read from the clock).
\<close>

subsection \<open>Constants of cloudsight.go\<close>

definition BaseURL :: string where
  "BaseURL = ''https://api.cloudsightapi.com''"

definition DefaultLocale :: string where
  "DefaultLocale = ''en-US''"

definition requestsURL :: string where
  "requestsURL = BaseURL @ ''/image_requests''"

definition responsesURL :: string where
  "responsesURL = BaseURL @ ''/image_responses/''"

text \<open>Instants and durations are counted in nanoseconds, as \<open>time.Duration\<close> is.\<close>

type_synonym Time = int
type_synonym Duration = int

definition Second :: Duration where
  "Second = 1000000000"

definition pollMinWait :: Duration where
  "pollMinWait = Second * 4"

definition userAgent :: "string list" where
  "userAgent = [''cloudsight-go v1.0'']"

subsection \<open>Errors\<close>

text \<open>
  The four sentinel errors of the package, the errors the package builds with
  \<open>fmt.Errorf\<close> (their arguments kept as fields), the errors of collaborators that it
  returns as they are, and the one run-time panic of the code: \<open>UpdateJob\<close> and
  \<open>RepostJob\<close> drop the error of \<open>http.NewRequest\<close> and read \<open>req.Header\<close> of the nil
  request it returns for a URL that does not parse.
\<close>

datatype error =
    ErrMissingKey
  | ErrMissingSecret
  | ErrTimeout
  | ErrInvalidRepostStatus
  | RandError string
  | ReadError string
  | NewRequestError string
  | TransportError string
  | DecodeError string
  | HTTPError string
  | JSONError string
  | APIError string int
  | RepostError string int
  | NilRequestPanic

subsection \<open>Data\<close>

type_synonym JobStatus = string

definition StatusNotCompleted :: JobStatus where
  "StatusNotCompleted = ''not completed''"

definition StatusCompleted :: JobStatus where
  "StatusCompleted = ''completed''"

definition StatusNotFound :: JobStatus where
  "StatusNotFound = ''not found''"

definition StatusSkipped :: JobStatus where
  "StatusSkipped = ''skipped''"

definition StatusTimeout :: JobStatus where
  "StatusTimeout = ''timeout''"

text \<open>The five values the package names; \<open>JobStatus\<close> itself is Go's \<open>string\<close>.\<close>

definition JobStatuses :: "JobStatus list" where
  "JobStatuses =
     [StatusNotCompleted, StatusCompleted, StatusNotFound, StatusSkipped, StatusTimeout]"

type_synonym SkipReason = string

text \<open>
  \<open>apiResponse\<close>: the decoded JSON payload. \<open>rError\<close> is the \<open>json.RawMessage\<close>:
  \<open>None\<close> is Go's nil. The type \<open>'f\<close> stands for \<open>float64\<close>: the code only copies
  the TTL, so its representation is a parameter.
\<close>

record 'f apiResponse =
  rCategories :: "string list"
  rError :: "string option"
  rName :: string
  rReason :: string
  rStatus :: string
  rTTL :: 'f
  rToken :: string
  rURL :: string

record Client =
  key :: string
  secret :: string

record 'f Job =
  Categories :: "string list"
  Name :: string
  Status :: JobStatus
  TTL :: 'f
  Token :: string
  URL :: string
  SkipReason :: SkipReason
  createdAt :: Time

text \<open>\<open>Params\<close> is \<open>map[string]string\<close>; a parameter of type \<open>Params option\<close> may be nil.\<close>

type_synonym Params = "string \<rightharpoonup> string"

subsection \<open>The environment\<close>

record request =
  req_Method :: string
  req_URL :: string
  req_Header :: "string \<rightharpoonup> string list"
  req_Body :: "string option"

text \<open>
  An HTTP response: its status code, its body as text, and what
  \<open>json.NewDecoder(resp.Body).Decode\<close> makes of the body (an error or the payload).
\<close>

record 'f http_response =
  StatusCode :: int
  Body :: string
  Decoded :: "string + 'f apiResponse"

text \<open>
  The world. \<open>clock\<close> is the current instant; after the \<open>k\<close>-th timed action (a reading
  of the clock, a sleep, an HTTP exchange) the environment lets \<open>elapse k\<close> more
  nanoseconds pass (scheduling, latency, oversleeping), and \<open>steps\<close> counts these actions.
  \<open>rand_src k\<close> is what the \<open>k\<close>-th \<open>rand.Read\<close> gives (an error or the bytes),
  \<open>transport k\<close> what the \<open>k\<close>-th HTTP exchange gives (a transport error or a response),
  and \<open>sent\<close> logs every request with the instant it was issued, oldest first.
\<close>

record 'f world =
  clock :: Time
  elapse :: "nat \<Rightarrow> nat"
  steps :: nat
  rand_src :: "nat \<Rightarrow> string + 8 word list"
  rand_calls :: nat
  transport :: "nat \<Rightarrow> string + 'f http_response"
  sent :: "(Time \<times> request) list"

definition tick :: "'f world \<Rightarrow> 'f world" where
  "tick w = w\<lparr>clock := clock w + int (elapse w (steps w)), steps := Suc (steps w)\<rparr>"

definition Now :: "'f world \<Rightarrow> Time \<times> 'f world" where
  "Now w = (clock w, tick w)"

text \<open>\<open>time.Sleep\<close> pauses for at least \<open>d\<close>; a negative or zero \<open>d\<close> returns at once.\<close>

definition Sleep :: "Duration \<Rightarrow> 'f world \<Rightarrow> 'f world" where
  "Sleep d w = tick (w\<lparr>clock := clock w + max 0 d\<rparr>)"

definition rand_Read :: "'f world \<Rightarrow> 'f world \<times> (string + 8 word list)" where
  "rand_Read w = (w\<lparr>rand_calls := Suc (rand_calls w)\<rparr>, rand_src w (rand_calls w))"

definition Do :: "request \<Rightarrow> 'f world \<Rightarrow> 'f world \<times> (string + 'f http_response)" where
  "Do req w =
     (tick (w\<lparr>sent := sent w @ [(clock w, req)]\<rparr>), transport w (length (sent w)))"

text \<open>
  The pure functions of the standard library the code calls, as parameters:
  \<open>hex.EncodeToString\<close> of \<open>sha256.Sum256\<close>, the base64 text of HMAC-SHA1 (key, message),
  \<open>url.QueryEscape\<close>, \<open>Params.values().Encode()\<close>, \<open>strings.ToUpper\<close>, the decimal text
  of an integer (\<open>strconv.Itoa\<close>, \<open>fmt.Sprint\<close>), the multipart body that
  \<open>multipart.Writer\<close> builds from the file name, the image and the fields, its content
  type, and whether \<open>http.NewRequest\<close> accepts a URL.
\<close>

record stdlib =
  sha256_hex :: "8 word list \<Rightarrow> string"
  hmac_sha1_base64 :: "string \<Rightarrow> string \<Rightarrow> string"
  QueryEscape :: "string \<Rightarrow> string"
  Encode :: "Params \<Rightarrow> string"
  ToUpper :: "string \<Rightarrow> string"
  Itoa :: "int \<Rightarrow> string"
  multipart_form :: "string \<Rightarrow> string \<Rightarrow> Params \<Rightarrow> string"
  FormDataContentType :: string
  url_parses :: "string \<Rightarrow> bool"

fun Join :: "string list \<Rightarrow> string \<Rightarrow> string" where
  "Join [] sep = []"
| "Join [x] sep = x"
| "Join (x # y # ys) sep = x @ sep @ Join (y # ys) sep"

text \<open>\<open>fmt.Sprintf("k=\"%s\"", v)\<close>; character 0x22 is the double quote.\<close>

definition quoted :: "string \<Rightarrow> string \<Rightarrow> string" where
  "quoted k v = k @ ''='' @ [CHR 0x22] @ v @ [CHR 0x22]"

text \<open>Reading a key of a Go map: the empty string when the key is absent.\<close>

definition lookup :: "Params \<Rightarrow> string \<Rightarrow> string" where
  "lookup p k = (case p k of None \<Rightarrow> [] | Some v \<Rightarrow> v)"

subsection \<open>oauth.go\<close>

definition oauthSignatureMethod :: string where
  "oauthSignatureMethod = ''HMAC-SHA1''"

definition oauthVersion :: string where
  "oauthVersion = ''1.0''"

text \<open>
  \<open>oauthSign\<close> returns the world, the caller's map as the call leaves it, and the error
  or the header. A nil map is replaced by a fresh one that the caller never sees; a
  non-nil map is the caller's own, and every assignment lands in it.
\<close>

definition oauthSign ::
  "stdlib \<Rightarrow> string \<Rightarrow> string \<Rightarrow> string \<Rightarrow> string \<Rightarrow> Params option \<Rightarrow> 'f world
     \<Rightarrow> 'f world \<times> Params option \<times> (error + string)" where
  "oauthSign lib method url ckey csecret params w =
     (let p0 = (case params of None \<Rightarrow> Map.empty | Some p \<Rightarrow> p);
          (w1, r) = rand_Read w
      in case r of
           Inl err \<Rightarrow> (w1, params, Inl (RandError err))
         | Inr nonceBuf \<Rightarrow>
             (let p1 = p0(''oauth_nonce'' \<mapsto> sha256_hex lib nonceBuf);
                  p2 = p1(''oauth_consumer_key'' \<mapsto> ckey);
                  p3 = p2(''oauth_signature_method'' \<mapsto> oauthSignatureMethod);
                  (t, w2) = Now w1;
                  p4 = p3(''oauth_timestamp'' \<mapsto> Itoa lib (t div Second));
                  p5 = p4(''oauth_version'' \<mapsto> oauthVersion);
                  baseString = Join [ToUpper lib method, QueryEscape lib url,
                                     QueryEscape lib (Encode lib p5)] ''&'';
                  skey = QueryEscape lib csecret @ ''&'';
                  signature = hmac_sha1_base64 lib skey baseString;
                  headerValues =
                    [quoted ''oauth_consumer_key'' (lookup p5 ''oauth_consumer_key''),
                     quoted ''oauth_nonce'' (lookup p5 ''oauth_nonce''),
                     quoted ''oauth_signature'' signature,
                     quoted ''oauth_signature_method'' oauthSignatureMethod,
                     quoted ''oauth_timestamp'' (lookup p5 ''oauth_timestamp''),
                     quoted ''oauth_version'' oauthVersion]
              in (w2, (case params of None \<Rightarrow> None | Some p \<Rightarrow> Some p5),
                  Inr (''OAuth '' @ Join headerValues '', ''))))"

subsection \<open>cloudsight.go\<close>

definition NewClientOAuth :: "string \<Rightarrow> string \<Rightarrow> error + Client" where
  "NewClientOAuth k s =
     (if k = [] then Inl ErrMissingKey
      else if s = [] then Inl ErrMissingSecret
      else Inr \<lparr>key = k, secret = s\<rparr>)"

definition NewClientSimple :: "string \<Rightarrow> error + Client" where
  "NewClientSimple k =
     (if k = [] then Inl ErrMissingKey else Inr \<lparr>key = k, secret = []\<rparr>)"

definition getAuthHeader ::
  "stdlib \<Rightarrow> Client \<Rightarrow> string \<Rightarrow> string \<Rightarrow> Params option \<Rightarrow> 'f world
     \<Rightarrow> 'f world \<times> Params option \<times> (error + string)" where
  "getAuthHeader lib c method url params w =
     (if secret c = [] then (w, params, Inr (''CloudSight '' @ key c))
      else oauthSign lib method url (key c) (secret c) params w)"

text \<open>\<open>strings.HasPrefix(jobURL, "//")\<close>, then the prefix \<open>https:\<close>.\<close>

definition normalizeURL :: "string \<Rightarrow> string" where
  "normalizeURL jobURL = (if take 2 jobURL = ''//'' then ''https:'' @ jobURL else jobURL)"

definition doImageRequest :: "request \<Rightarrow> 'f world \<Rightarrow> 'f world \<times> (error + 'f Job)" where
  "doImageRequest req w =
     (case Do req w of
        (w1, Inl err) \<Rightarrow> (w1, Inl (TransportError err))
      | (w1, Inr resp) \<Rightarrow>
          (case Decoded resp of
             Inl err \<Rightarrow> (w1, Inl (DecodeError err))
           | Inr job \<Rightarrow>
               (case rError job of
                  Some e \<Rightarrow> (w1, Inl (APIError e (StatusCode resp)))
                | None \<Rightarrow>
                    (let jobURL = normalizeURL (rURL job);
                         (t, w2) = Now w1
                     in (w2, Inr \<lparr>Categories = [], Name = [], Status = rStatus job,
                                  TTL = rTTL job, Token = rToken job, URL = jobURL,
                                  SkipReason = [], createdAt = t\<rparr>)))))"

text \<open>
  The submission operations return, beside the world and the result, the caller's
  parameter map as the call leaves it. The image is what \<open>io.Copy\<close> reads from the
  \<open>io.Reader\<close>: its bytes or the reader's error. Writing into the \<open>bytes.Buffer\<close>
  (\<open>CreateFormFile\<close>, \<open>WriteField\<close>, \<open>Close\<close>) cannot fail.
\<close>

definition ImageRequest ::
  "stdlib \<Rightarrow> Client \<Rightarrow> string + string \<Rightarrow> string \<Rightarrow> Params option \<Rightarrow> 'f world
     \<Rightarrow> 'f world \<times> Params option \<times> (error + 'f Job)" where
  "ImageRequest lib c img filename params w =
     (case img of
        Inl err \<Rightarrow> (w, params, Inl (ReadError err))
      | Inr content \<Rightarrow>
          (let caller = (\<lambda>p. case params of None \<Rightarrow> None | Some q \<Rightarrow> p);
               p0 = (case params of None \<Rightarrow> Map.empty | Some p \<Rightarrow> p);
               p1 = (if p0 ''image_request[locale]'' = None
                     then p0(''image_request[locale]'' \<mapsto> DefaultLocale) else p0);
               buf = multipart_form lib filename content p1
           in if \<not> url_parses lib requestsURL
              then (w, caller (Some p1), Inl (NewRequestError requestsURL))
              else
                (case getAuthHeader lib c ''POST'' requestsURL (Some p1) w of
                   (w1, p2, Inl err) \<Rightarrow> (w1, caller p2, Inl err)
                 | (w1, p2, Inr auth) \<Rightarrow>
                     (let hdr = [''User-Agent'' \<mapsto> userAgent,
                                 ''Authorization'' \<mapsto> [auth],
                                 ''Content-Length'' \<mapsto> [Itoa lib (int (length buf))],
                                 ''Content-Type'' \<mapsto> [FormDataContentType lib]];
                          (w2, r) = doImageRequest
                                      \<lparr>req_Method = ''POST'', req_URL = requestsURL,
                                       req_Header = hdr, req_Body = Some buf\<rparr> w1
                      in (w2, caller p2, r)))))"

definition RemoteImageRequest ::
  "stdlib \<Rightarrow> Client \<Rightarrow> string \<Rightarrow> Params option \<Rightarrow> 'f world
     \<Rightarrow> 'f world \<times> Params option \<times> (error + 'f Job)" where
  "RemoteImageRequest lib c url params w =
     (let caller = (\<lambda>p. case params of None \<Rightarrow> None | Some q \<Rightarrow> p);
          p0 = (case params of None \<Rightarrow> Map.empty | Some p \<Rightarrow> p);
          p1 = (if p0 ''image_request[locale]'' = None
                then p0(''image_request[locale]'' \<mapsto> DefaultLocale) else p0);
          p2 = p1(''image_request[remote_image_url]'' \<mapsto> url);
          body = Encode lib p2
      in if \<not> url_parses lib requestsURL
         then (w, caller (Some p2), Inl (NewRequestError requestsURL))
         else
           (case getAuthHeader lib c ''POST'' requestsURL (Some p2) w of
              (w1, p3, Inl err) \<Rightarrow> (w1, caller p3, Inl err)
            | (w1, p3, Inr auth) \<Rightarrow>
                (let hdr = [''User-Agent'' \<mapsto> userAgent,
                            ''Authorization'' \<mapsto> [auth],
                            ''Content-Length'' \<mapsto> [Itoa lib (int (length body))]];
                     (w2, r) = doImageRequest
                                 \<lparr>req_Method = ''POST'', req_URL = requestsURL,
                                  req_Header = hdr, req_Body = Some body\<rparr> w1
                 in (w2, caller p3, r))))"

definition updateJobFromRequest ::
  "'f Job \<Rightarrow> request \<Rightarrow> 'f world \<Rightarrow> 'f world \<times> 'f Job \<times> error option" where
  "updateJobFromRequest job req w =
     (case Do req w of
        (w1, Inl err) \<Rightarrow> (w1, job, Some (HTTPError err))
      | (w1, Inr resp) \<Rightarrow>
          (case Decoded resp of
             Inl err \<Rightarrow> (w1, job, Some (JSONError err))
           | Inr updatedJob \<Rightarrow>
               (case rError updatedJob of
                  Some e \<Rightarrow> (w1, job, Some (APIError e (StatusCode resp)))
                | None \<Rightarrow>
                    (w1, job\<lparr>Categories := rCategories updatedJob,
                              Name := rName updatedJob,
                              Status := rStatus updatedJob,
                              TTL := rTTL updatedJob,
                              SkipReason := rReason updatedJob\<rparr>, None))))"

text \<open>
  \<open>UpdateJob\<close> and \<open>RepostJob\<close> return the world, the job as the call leaves it (the
  code updates it through the pointer) and the error, \<open>None\<close> for nil.
\<close>

definition UpdateJob ::
  "stdlib \<Rightarrow> Client \<Rightarrow> 'f Job \<Rightarrow> 'f world \<Rightarrow> 'f world \<times> 'f Job \<times> error option" where
  "UpdateJob lib c job w =
     (if Status job \<noteq> StatusNotCompleted then (w, job, None)
      else
        (let url = responsesURL @ Token job
         in if \<not> url_parses lib url then (w, job, Some NilRequestPanic)
            else
              (case getAuthHeader lib c ''GET'' url None w of
                 (w1, p, Inl err) \<Rightarrow> (w1, job, Some err)
               | (w1, p, Inr auth) \<Rightarrow>
                   updateJobFromRequest job
                     \<lparr>req_Method = ''GET'', req_URL = url,
                      req_Header = [''User-Agent'' \<mapsto> userAgent,
                                    ''Authorization'' \<mapsto> [auth]],
                      req_Body = None\<rparr> w1)))"

definition RepostJob ::
  "stdlib \<Rightarrow> Client \<Rightarrow> 'f Job \<Rightarrow> 'f world \<Rightarrow> 'f world \<times> 'f Job \<times> error option" where
  "RepostJob lib c job w =
     (if Status job \<noteq> StatusTimeout then (w, job, Some ErrInvalidRepostStatus)
      else
        (let url = requestsURL @ ''/'' @ Token job @ ''/repost''
         in if \<not> url_parses lib url then (w, job, Some NilRequestPanic)
            else
              (case getAuthHeader lib c ''POST'' url None w of
                 (w1, p, Inl err) \<Rightarrow> (w1, job, Some err)
               | (w1, p, Inr auth) \<Rightarrow>
                   (case Do \<lparr>req_Method = ''POST'', req_URL = url,
                             req_Header = [''User-Agent'' \<mapsto> userAgent,
                                           ''Content-Length'' \<mapsto> [''0''],
                                           ''Authorization'' \<mapsto> [auth]],
                             req_Body = None\<rparr> w1 of
                      (w2, Inl err) \<Rightarrow> (w2, job, Some (HTTPError err))
                    | (w2, Inr resp) \<Rightarrow>
                        if StatusCode resp \<noteq> 200
                        then (w2, job, Some (RepostError (Body resp) (StatusCode resp)))
                        else UpdateJob lib c job w2))))"

subsection \<open>The wait loop\<close>

text \<open>
  One pass through the body of the \<open>for\<close> loop of \<open>WaitJob\<close> either leaves the function
  with a result or goes round again. In \<open>timeout > 0 && time.Now().After(timeoutAt)\<close>
  the clock is read only when the timeout is positive.
\<close>

datatype ('s, 'r) step = Continue 's | Break 'r

definition WaitJob_body ::
  "stdlib \<Rightarrow> Client \<Rightarrow> Duration \<Rightarrow> Time \<Rightarrow> 'f world \<times> 'f Job
     \<Rightarrow> ('f world \<times> 'f Job, 'f world \<times> 'f Job \<times> error option) step" where
  "WaitJob_body lib c timeout timeoutAt s =
     (let (w, job) = s;
          (expired, w1) = (if timeout > 0
                           then (let (t, w') = Now w in (t > timeoutAt, w'))
                           else (False, w))
      in if expired then Break (w1, job, Some ErrTimeout)
         else
           (case UpdateJob lib c job w1 of
              (w2, job2, Some err) \<Rightarrow> Break (w2, job2, Some err)
            | (w2, job2, None) \<Rightarrow>
                if Status job2 \<noteq> StatusNotCompleted then Break (w2, job2, None)
                else Continue (Sleep (1 * Second) w2, job2)))"

text \<open>
  The loop, run for at most \<open>n\<close> passes: \<open>Break r\<close> when it has returned \<open>r\<close>,
  \<open>Continue s\<close> when it is still running, in state \<open>s\<close>, after \<open>n\<close> passes.
\<close>

fun WaitJob_loop ::
  "nat \<Rightarrow> stdlib \<Rightarrow> Client \<Rightarrow> Duration \<Rightarrow> Time \<Rightarrow> 'f world \<times> 'f Job
     \<Rightarrow> ('f world \<times> 'f Job, 'f world \<times> 'f Job \<times> error option) step" where
  "WaitJob_loop 0 lib c timeout timeoutAt s = Continue s"
| "WaitJob_loop (Suc n) lib c timeout timeoutAt s =
     (case WaitJob_body lib c timeout timeoutAt s of
        Break r \<Rightarrow> Break r
      | Continue s' \<Rightarrow> WaitJob_loop n lib c timeout timeoutAt s')"

text \<open>\<open>WaitJob\<close> up to the loop: the deadline, the quiet period, the sleep.\<close>

definition WaitJob_start ::
  "'f Job \<Rightarrow> Duration \<Rightarrow> 'f world \<Rightarrow> Time \<times> 'f world" where
  "WaitJob_start job timeout w =
     (let (t0, w1) = Now w;
          timeoutAt = t0 + timeout;
          waitUntil = createdAt job + pollMinWait;
          (now, w2) = Now w1;
          w3 = (if now < waitUntil then Sleep (waitUntil - now) w2 else w2)
      in (timeoutAt, w3))"

definition WaitJob_run ::
  "nat \<Rightarrow> stdlib \<Rightarrow> Client \<Rightarrow> 'f Job \<Rightarrow> Duration \<Rightarrow> 'f world
     \<Rightarrow> ('f world \<times> 'f Job, 'f world \<times> 'f Job \<times> error option) step" where
  "WaitJob_run n lib c job timeout w =
     (let (timeoutAt, w3) = WaitJob_start job timeout w
      in WaitJob_loop n lib c timeout timeoutAt (w3, job))"

text \<open>
  \<open>WaitJob\<close> with fuel: \<open>None\<close> when the loop has not returned within \<open>n\<close> passes.
\<close>

definition WaitJob ::
  "nat \<Rightarrow> stdlib \<Rightarrow> Client \<Rightarrow> 'f Job \<Rightarrow> Duration \<Rightarrow> 'f world
     \<Rightarrow> ('f world \<times> 'f Job \<times> error option) option" where
  "WaitJob n lib c job timeout w =
     (case WaitJob_run n lib c job timeout w of
        Break r \<Rightarrow> Some r
      | Continue s \<Rightarrow> None)"

section \<open>Notions used in the statements\<close>

text \<open>
  \<open>evolves w w'\<close>: the world \<open>w'\<close> is a later state of \<open>w\<close>. The clock has not gone
  back, the environment (what time will pass, what the random source and the
  transport will give) is the same, and the log of requests has only grown.
\<close>

definition evolves :: "'f world \<Rightarrow> 'f world \<Rightarrow> bool" where
  "evolves w w' \<longleftrightarrow>
     clock w \<le> clock w' \<and> elapse w' = elapse w \<and> rand_src w' = rand_src w \<and>
     transport w' = transport w \<and> length (sent w) \<le> length (sent w') \<and>
     take (length (sent w)) (sent w') = sent w"

text \<open>
  A transport outcome that answers a poll with "not completed": a response that
  decodes to a payload with no error and that status.
\<close>

definition answers_pending :: "string + 'f http_response \<Rightarrow> bool" where
  "answers_pending x =
     (case x of
        Inl err \<Rightarrow> False
      | Inr resp \<Rightarrow>
          (case Decoded resp of
             Inl err \<Rightarrow> False
           | Inr r \<Rightarrow> rError r = None \<and> rStatus r = StatusNotCompleted))"

text \<open>
  The instants of the requests issued between a world and a later one, and a list of
  instants in which each is at least \<open>d\<close> after the one before.
\<close>

definition issued :: "'f world \<Rightarrow> 'f world \<Rightarrow> Time list" where
  "issued w w' = map fst (drop (length (sent w)) (sent w'))"

fun spaced :: "Duration \<Rightarrow> Time list \<Rightarrow> bool" where
  "spaced d [] = True"
| "spaced d [t] = True"
| "spaced d (t # u # us) = (t + d \<le> u \<and> spaced d (u # us))"


text \<open>The world a run of the wait loop has reached, returned or not.\<close>

fun world_of ::
  "('f world \<times> 'f Job, 'f world \<times> 'f Job \<times> error option) step \<Rightarrow> 'f world" where
  "world_of (Continue (w, job)) = w"
| "world_of (Break (w, job, e)) = w"

subsection \<open>Concrete inputs\<close>

text \<open>
  A library whose functions are trivial, a client of each kind, a job, a payload and a
  world with a given transport, for running the model on concrete inputs. In the
  concrete world one second has passed since the job was created, every timed action is
  followed by one more millisecond, and the random source always delivers.
\<close>

definition ex_lib :: stdlib where
  "ex_lib =
     \<lparr>sha256_hex = (\<lambda>b. ''c0ffee''), hmac_sha1_base64 = (\<lambda>k m. m),
      QueryEscape = (\<lambda>s. s), Encode = (\<lambda>p. lookup p ''image_request[locale]''),
      ToUpper = (\<lambda>s. s), Itoa = (\<lambda>i. if i = 0 then ''0'' else ''1''),
      multipart_form = (\<lambda>f i p. i), FormDataContentType = ''multipart/form-data'',
      url_parses = (\<lambda>u. True)\<rparr>"

definition ex_simple :: Client where
  "ex_simple = \<lparr>key = ''api-key'', secret = []\<rparr>"

definition ex_oauth :: Client where
  "ex_oauth = \<lparr>key = ''api-key'', secret = ''api-secret''\<rparr>"

definition ex_job :: "JobStatus \<Rightarrow> real Job" where
  "ex_job st =
     \<lparr>Categories = [], Name = [], Status = st, TTL = 0, Token = ''abc'',
      URL = ''https://host/abc.jpg'', SkipReason = [], createdAt = 0\<rparr>"

definition ex_payload :: "string \<Rightarrow> string option \<Rightarrow> real apiResponse" where
  "ex_payload st err =
     \<lparr>rCategories = [''cat'', ''animal''], rError = err, rName = ''a cat'', rReason = [],
      rStatus = st, rTTL = 54, rToken = ''abc'', rURL = ''//host/abc.jpg''\<rparr>"

definition ex_ok :: "real apiResponse \<Rightarrow> string + real http_response" where
  "ex_ok r = Inr \<lparr>StatusCode = 200, Body = [], Decoded = Inr r\<rparr>"

definition ex_world :: "(nat \<Rightarrow> string + real http_response) \<Rightarrow> real world" where
  "ex_world tr =
     \<lparr>clock = Second, elapse = (\<lambda>k. 1000000), steps = 0,
      rand_src = (\<lambda>k. Inr [1, 2, 3]), rand_calls = 0, transport = tr, sent = []\<rparr>"

text \<open>
  Two transports: one that answers the first poll "not completed" and every later one
  "completed", and one that answers "not completed" for ever.
\<close>

definition ex_transport :: "nat \<Rightarrow> string + real http_response" where
  "ex_transport k =
     (if k = 0 then ex_ok (ex_payload StatusNotCompleted None)
      else ex_ok (ex_payload StatusCompleted None))"

definition ex_pending :: "nat \<Rightarrow> string + real http_response" where
  "ex_pending k = ex_ok (ex_payload StatusNotCompleted None)"

text \<open>
  A transport that reports a service error with status 401, one that answers with a
  status text the package does not name, one whose payload carries an absolute URL, and
  the address of a remote image.
\<close>

definition ex_api_error :: "nat \<Rightarrow> string + real http_response" where
  "ex_api_error k =
     Inr \<lparr>StatusCode = 401, Body = [],
          Decoded = Inr (ex_payload StatusCompleted (Some ''bad token''))\<rparr>"

definition ex_bogus :: "nat \<Rightarrow> string + real http_response" where
  "ex_bogus k = ex_ok (ex_payload ''bogus'' None)"

definition ex_absolute :: "nat \<Rightarrow> string + real http_response" where
  "ex_absolute k = ex_ok ((ex_payload StatusNotCompleted None)\<lparr>rURL := ''http://host/abc.jpg''\<rparr>)"

definition ex_image_url :: string where
  "ex_image_url = ''http://www.example.com/some-image.jpg''"

section \<open>How the operations change the world\<close>

lemma evolves_refl: "evolves w w"
  by (simp add: evolves_def)

lemma evolves_trans: "evolves w w1 \<Longrightarrow> evolves w1 w2 \<Longrightarrow> evolves w w2"
proof -
  assume a: "evolves w w1" and b: "evolves w1 w2"
  have l: "length (sent w) \<le> length (sent w1)" using a by (simp add: evolves_def)
  have "take (length (sent w)) (sent w2) = take (length (sent w)) (take (length (sent w1)) (sent w2))"
    using l by (simp add: min_def)
  also have "\<dots> = sent w" using a b by (simp add: evolves_def)
  finally show ?thesis using a b by (simp add: evolves_def)
qed

lemma evolves_tick: "evolves w (tick w)"
  by (simp add: evolves_def tick_def)

lemma evolves_Sleep: "evolves w (Sleep d w)"
  by (simp add: evolves_def Sleep_def tick_def)

lemma clock_Sleep: "clock w + d \<le> clock (Sleep d w)"
  by (simp add: Sleep_def tick_def)

lemma Do_facts:
  "Do req w = (w', r) \<Longrightarrow>
     evolves w w' \<and> sent w' = sent w @ [(clock w, req)] \<and> r = transport w (length (sent w))"
  by (auto simp: Do_def evolves_def tick_def)

lemma oauthSign_world:
  "oauthSign lib method url ckey csecret params w = (w', p', r) \<Longrightarrow>
     evolves w w' \<and> sent w' = sent w"
  by (auto simp: oauthSign_def rand_Read_def Now_def tick_def evolves_def Let_def
           split: sum.splits prod.splits)

lemma getAuthHeader_world:
  "getAuthHeader lib c method url params w = (w', p', r) \<Longrightarrow>
     evolves w w' \<and> sent w' = sent w"
  by (auto simp: getAuthHeader_def evolves_refl dest: oauthSign_world split: if_splits)

lemma updateJobFromRequest_world:
  "updateJobFromRequest job req w = (w', job', e) \<Longrightarrow>
     evolves w w' \<and> sent w' = sent w @ [(clock w, req)]"
  by (auto simp: updateJobFromRequest_def split: prod.splits sum.splits option.splits
           dest: Do_facts)

lemma updateJobFromRequest_frame:
  "updateJobFromRequest job req w = (w', job', e) \<Longrightarrow>
     Token job' = Token job \<and> URL job' = URL job \<and> createdAt job' = createdAt job"
  by (auto simp: updateJobFromRequest_def split: prod.splits sum.splits option.splits)

lemma updateJobFromRequest_error:
  "updateJobFromRequest job req w = (w', job', Some err) \<Longrightarrow>
     job' = job \<and> err \<noteq> ErrTimeout"
  by (auto simp: updateJobFromRequest_def split: prod.splits sum.splits option.splits)

lemma updateJobFromRequest_ok:
  "updateJobFromRequest job req w = (w', job', None) \<Longrightarrow>
     \<exists>resp r. transport w (length (sent w)) = Inr resp \<and> Decoded resp = Inr r \<and>
       rError r = None \<and>
       job' = job\<lparr>Categories := rCategories r, Name := rName r, Status := rStatus r,
                   TTL := rTTL r, SkipReason := rReason r\<rparr>"
  by (auto simp: updateJobFromRequest_def Do_def split: prod.splits sum.splits option.splits)

lemma UpdateJob_world:
  "UpdateJob lib c job w = (w', job', e) \<Longrightarrow> evolves w w'"
  by (auto simp: UpdateJob_def Let_def evolves_refl split: if_splits prod.splits sum.splits
           dest!: getAuthHeader_world updateJobFromRequest_world intro: evolves_trans)

lemma UpdateJob_sent:
  "UpdateJob lib c job w = (w', job', e) \<Longrightarrow>
     sent w' = sent w \<or>
     (\<exists>t req. sent w' = sent w @ [(t, req)] \<and> clock w \<le> t \<and> t \<le> clock w')"
  apply (auto simp: UpdateJob_def Let_def split: if_splits prod.splits sum.splits
           dest!: getAuthHeader_world updateJobFromRequest_world)
  apply (auto simp: evolves_def)
  done

lemma UpdateJob_frame:
  "UpdateJob lib c job w = (w', job', e) \<Longrightarrow>
     Token job' = Token job \<and> URL job' = URL job \<and> createdAt job' = createdAt job"
  by (auto simp: UpdateJob_def Let_def split: if_splits prod.splits sum.splits
           dest!: updateJobFromRequest_frame)

lemma UpdateJob_error:
  "UpdateJob lib c job w = (w', job', Some err) \<Longrightarrow> job' = job \<and> err \<noteq> ErrTimeout"
  by (auto simp: UpdateJob_def Let_def getAuthHeader_def oauthSign_def
           split: if_splits prod.splits sum.splits
           dest!: updateJobFromRequest_error)

section \<open>The wait loop, pass by pass\<close>

lemma spaced_Cons: "list_all (\<lambda>u. t + d \<le> u) us \<Longrightarrow> spaced d us \<Longrightarrow> spaced d (t # us)"
  by (cases us) auto

lemma issued_append:
  assumes "evolves w w1" and "evolves w1 w2"
  shows "issued w w2 = issued w w1 @ issued w1 w2"
proof -
  have 1: "sent w1 = take (length (sent w1)) (sent w2)" and 2: "length (sent w) \<le> length (sent w1)"
    using assms by (simp_all add: evolves_def)
  have "drop (length (sent w)) (sent w2)
        = drop (length (sent w)) (take (length (sent w1)) (sent w2) @ drop (length (sent w1)) (sent w2))"
    by simp
  also have "\<dots> = drop (length (sent w)) (sent w1) @ drop (length (sent w1)) (sent w2)"
    using 1 2 by (metis drop_append diff_is_0_eq drop0)
  finally show ?thesis by (simp add: issued_def)
qed

lemma issued_one: "sent w' = sent w @ [(t, req)] \<Longrightarrow> issued w w' = [t]"
  by (simp add: issued_def)

lemma Second_pos: "0 < Second"
  by (simp add: Second_def)

lemma WaitJob_body_Continue:
  assumes "WaitJob_body lib c timeout timeoutAt (w, job) = Continue (w', job')"
  shows "evolves w w' \<and>
         (\<exists>t req. sent w' = sent w @ [(t, req)] \<and> clock w \<le> t \<and> t + Second \<le> clock w') \<and>
         answers_pending (transport w (length (sent w))) \<and>
         Status job' = StatusNotCompleted \<and> Token job' = Token job \<and>
         createdAt job' = createdAt job"
proof -
  obtain exp w1 where e: "(if timeout > 0 then (let (t, w') = Now w in (t > timeoutAt, w')) else (False, w)) = (exp, w1)"
    by (cases "(if timeout > 0 then (let (t, w') = Now w in (t > timeoutAt, w')) else (False, w))") auto
  have w1: "evolves w w1" "sent w1 = sent w" "transport w1 = transport w"
    using e by (auto simp: Now_def evolves_tick evolves_refl tick_def evolves_def split: if_splits)
  obtain w2 job2 err where u: "UpdateJob lib c job w1 = (w2, job2, err)"
    by (cases "UpdateJob lib c job w1") auto
  from assms e u have nexp: "\<not> exp" and err: "err = None" and st: "Status job2 = StatusNotCompleted"
    and w': "w' = Sleep (1 * Second) w2" and j: "job' = job2"
    by (auto simp: WaitJob_body_def split: if_splits option.splits)
  have polled: "Status job = StatusNotCompleted"
    using u st err by (auto simp: UpdateJob_def split: if_splits)
  from u polled err obtain auth wa pa where
    ua: "updateJobFromRequest job \<lparr>req_Method = ''GET'', req_URL = responsesURL @ Token job,
                      req_Header = [''User-Agent'' \<mapsto> userAgent,
                                    ''Authorization'' \<mapsto> [auth]],
                      req_Body = None\<rparr> wa = (w2, job2, None)"
    and ga: "getAuthHeader lib c ''GET'' (responsesURL @ Token job) None w1 = (wa, pa, Inr auth)"
    by (auto simp: UpdateJob_def Let_def split: if_splits prod.splits sum.splits)
  have wa: "evolves w1 wa" "sent wa = sent w1" using getAuthHeader_world[OF ga] by auto
  have w2: "evolves wa w2" "sent w2 = sent wa @ [(clock wa, \<lparr>req_Method = ''GET'', req_URL = responsesURL @ Token job,
                      req_Header = [''User-Agent'' \<mapsto> userAgent,
                                    ''Authorization'' \<mapsto> [auth]],
                      req_Body = None\<rparr>)]"
    using updateJobFromRequest_world[OF ua] by auto
  from updateJobFromRequest_ok[OF ua] obtain resp r where
    r: "transport wa (length (sent wa)) = Inr resp" "Decoded resp = Inr r" "rError r = None"
       "job2 = job\<lparr>Categories := rCategories r, Name := rName r, Status := rStatus r,
                   TTL := rTTL r, SkipReason := rReason r\<rparr>"
    by blast
  have tr: "transport wa = transport w" using wa w1 by (simp add: evolves_def)
  have pend: "answers_pending (transport w (length (sent w)))"
    using r st tr wa w1 by (simp add: answers_pending_def)
  have c1: "clock w \<le> clock wa" using w1 wa by (simp add: evolves_def)
  have c2: "clock wa \<le> clock w2" using w2 by (simp add: evolves_def)
  have c3: "clock w2 + Second \<le> clock w'" using clock_Sleep[of w2 "1 * Second"] w' by simp
  have ev: "evolves w w'"
    using w1(1) wa(1) w2(1) evolves_Sleep[of w2 "1 * Second"] w' by (blast intro: evolves_trans)
  have s': "sent w' = sent w2" using w' by (simp add: Sleep_def tick_def)
  show ?thesis
    using ev pend st j r(4) s' w2(2) wa(2) w1(2) c1 c2 c3 by auto
qed

lemma WaitJob_body_Break:
  assumes "WaitJob_body lib c timeout timeoutAt (w, job) = Break (w', job', e)"
  shows "evolves w w' \<and>
         (sent w' = sent w \<or> (\<exists>t req. sent w' = sent w @ [(t, req)] \<and> clock w \<le> t)) \<and>
         (e = Some ErrTimeout \<longrightarrow>
            0 < timeout \<and> timeoutAt < clock w' \<and> sent w' = sent w \<and> job' = job)"
proof -
  obtain exp w1 where e: "(if timeout > 0 then (let (t, w') = Now w in (t > timeoutAt, w')) else (False, w)) = (exp, w1)"
    by (cases "(if timeout > 0 then (let (t, w') = Now w in (t > timeoutAt, w')) else (False, w))") auto
  have w1: "evolves w w1" "sent w1 = sent w" "clock w \<le> clock w1"
    using e by (auto simp: Now_def evolves_tick evolves_refl tick_def evolves_def split: if_splits)
  have ex: "exp \<Longrightarrow> 0 < timeout \<and> timeoutAt < clock w1"
    using e by (auto simp: Now_def tick_def split: if_splits)
  show ?thesis
  proof (cases exp)
    case True
    with assms e have "w' = w1" "job' = job" "e = Some ErrTimeout"
      by (auto simp: WaitJob_body_def)
    with w1 ex True show ?thesis by simp
  next
    case False
    obtain w2 job2 err where u: "UpdateJob lib c job w1 = (w2, job2, err)"
      by (cases "UpdateJob lib c job w1") auto
    from assms e u False have eq: "w' = w2" "job' = job2" "e = err"
      by (auto simp: WaitJob_body_def split: if_splits option.splits)
    have ne: "e \<noteq> Some ErrTimeout"
      using UpdateJob_error[of lib c job w1 w2 job2] u eq by (cases err) auto
    have ev: "evolves w w'" using w1(1) UpdateJob_world[OF u] eq by (blast intro: evolves_trans)
    from UpdateJob_sent[OF u] w1 eq ne ev show ?thesis by auto
  qed
qed

lemma WaitJob_start_facts:
  assumes "WaitJob_start job timeout w = (timeoutAt, w3)"
  shows "evolves w w3 \<and> sent w3 = sent w \<and> timeoutAt = clock w + timeout \<and>
         createdAt job + pollMinWait \<le> clock w3"
  using assms
  by (auto simp: WaitJob_start_def Now_def Sleep_def tick_def evolves_def Let_def
           split: if_splits)

lemma WaitJob_loop_trace:
  "evolves w (world_of (WaitJob_loop n lib c timeout timeoutAt (w, job))) \<and>
   list_all (\<lambda>t. clock w \<le> t) (issued w (world_of (WaitJob_loop n lib c timeout timeoutAt (w, job)))) \<and>
   spaced Second (issued w (world_of (WaitJob_loop n lib c timeout timeoutAt (w, job))))"
proof (induction n arbitrary: w job)
  case 0
  show ?case by (simp add: evolves_refl issued_def)
next
  case (Suc n)
  show ?case
  proof (cases "WaitJob_body lib c timeout timeoutAt (w, job)")
    case (Break r)
    obtain w' job' e where r: "r = (w', job', e)" by (cases r) auto
    from WaitJob_body_Break[of lib c timeout timeoutAt w job w' job' e] Break r
    have ev: "evolves w w'"
      and s: "sent w' = sent w \<or> (\<exists>t req. sent w' = sent w @ [(t, req)] \<and> clock w \<le> t)"
      by auto
    from s have "list_all (\<lambda>t. clock w \<le> t) (issued w w') \<and> spaced Second (issued w w')"
      by (auto simp: issued_def)
    with ev Break r show ?thesis by simp
  next
    case (Continue s1)
    obtain w1 job1 where s1: "s1 = (w1, job1)" by (cases s1) auto
    from WaitJob_body_Continue[of lib c timeout timeoutAt w job w1 job1] Continue s1
    obtain t req where ev: "evolves w w1" and s: "sent w1 = sent w @ [(t, req)]"
      and t: "clock w \<le> t" "t + Second \<le> clock w1"
      by auto
    let ?w' = "world_of (WaitJob_loop n lib c timeout timeoutAt (w1, job1))"
    from Suc.IH[of w1 job1] have ih: "evolves w1 ?w'"
      "list_all (\<lambda>t. clock w1 \<le> t) (issued w1 ?w')" "spaced Second (issued w1 ?w')"
      by auto
    have i: "issued w ?w' = t # issued w1 ?w'"
      using issued_append[OF ev ih(1)] issued_one[OF s] by simp
    have a: "list_all (\<lambda>u. t + Second \<le> u) (issued w1 ?w')"
      using ih(2) t(2) by (auto simp: list_all_iff)
    have b: "list_all (\<lambda>u. clock w \<le> u) (issued w1 ?w')"
      using a t(1) Second_pos by (auto simp: list_all_iff)
    have "evolves w ?w'" using ev ih(1) by (rule evolves_trans)
    moreover have "list_all (\<lambda>t. clock w \<le> t) (issued w ?w')" using i b t(1) by simp
    moreover have "spaced Second (issued w ?w')" using i spaced_Cons[OF a ih(3)] by simp
    ultimately show ?thesis using Continue s1 by simp
  qed
qed

lemma WaitJob_run_trace:
  "list_all (\<lambda>t. createdAt job + 4 * Second \<le> t) (issued w (world_of (WaitJob_run n lib c job timeout w))) \<and>
   spaced Second (issued w (world_of (WaitJob_run n lib c job timeout w))) \<and>
   take (length (sent w)) (sent (world_of (WaitJob_run n lib c job timeout w))) = sent w"
proof -
  obtain timeoutAt w3 where st: "WaitJob_start job timeout w = (timeoutAt, w3)"
    by (cases "WaitJob_start job timeout w") auto
  let ?w' = "world_of (WaitJob_loop n lib c timeout timeoutAt (w3, job))"
  have run: "WaitJob_run n lib c job timeout w = WaitJob_loop n lib c timeout timeoutAt (w3, job)"
    using st by (simp add: WaitJob_run_def)
  from WaitJob_start_facts[OF st] have f: "evolves w w3" "sent w3 = sent w"
    "createdAt job + pollMinWait \<le> clock w3" by auto
  from WaitJob_loop_trace[of w3 n lib c timeout timeoutAt job]
  have l: "evolves w3 ?w'" "list_all (\<lambda>t. clock w3 \<le> t) (issued w3 ?w')"
    "spaced Second (issued w3 ?w')" by auto
  have i: "issued w ?w' = issued w3 ?w'" using f(2) by (simp add: issued_def)
  have "evolves w ?w'" using f(1) l(1) by (rule evolves_trans)
  then have "take (length (sent w)) (sent ?w') = sent w" by (simp add: evolves_def)
  moreover have "list_all (\<lambda>t. createdAt job + 4 * Second \<le> t) (issued w ?w')"
    using l(2) f(3) i by (auto simp: list_all_iff pollMinWait_def)
  ultimately show ?thesis using l(3) i run by simp
qed

section \<open>The wait loop while every poll answers "not completed"\<close>










section \<open>Concrete runs\<close>

lemma ex_wait:
  "\<exists>w' job'. WaitJob 3 ex_lib ex_simple (ex_job StatusNotCompleted) (30 * Second) (ex_world ex_transport)
     = Some (w', job', None) \<and> map fst (sent w') = [4003000000, 5006000000]"
  by (simp add: WaitJob_def WaitJob_run_def WaitJob_start_def WaitJob_body_def UpdateJob_def
      getAuthHeader_def updateJobFromRequest_def Do_def Now_def Sleep_def tick_def ex_lib_def ex_simple_def ex_job_def ex_payload_def ex_ok_def ex_world_def
      ex_transport_def StatusCompleted_def StatusNotCompleted_def Second_def pollMinWait_def
      numeral_3_eq_3 Let_def)



section \<open>What a poll and a submission make of the response\<close>

lemma UpdateJob_polls:
  assumes "UpdateJob lib c job w = (w', job', e)" and "sent w' \<noteq> sent w"
  shows "\<exists>wa req. updateJobFromRequest job req wa = (w', job', e) \<and> sent wa = sent w \<and>
           transport wa = transport w \<and> Status job = StatusNotCompleted"
proof -
  from assms have st: "Status job = StatusNotCompleted"
    by (auto simp: UpdateJob_def split: if_splits)
  from assms st obtain wa pa auth where
    ga: "getAuthHeader lib c ''GET'' (responsesURL @ Token job) None w = (wa, pa, Inr auth)"
    and u: "updateJobFromRequest job
              \<lparr>req_Method = ''GET'', req_URL = responsesURL @ Token job,
               req_Header = [''User-Agent'' \<mapsto> userAgent, ''Authorization'' \<mapsto> [auth]],
               req_Body = None\<rparr> wa = (w', job', e)"
    by (auto simp: UpdateJob_def Let_def split: if_splits prod.splits sum.splits
             dest: getAuthHeader_world)
  from getAuthHeader_world[OF ga] have "sent wa = sent w" "transport wa = transport w"
    by (auto simp: evolves_def)
  with u st show ?thesis by blast
qed

lemma updateJobFromRequest_api_error:
  assumes "updateJobFromRequest job req w = (w', job', e)"
    and "transport w (length (sent w)) = Inr resp" and "Decoded resp = Inr r"
    and "rError r = Some err"
  shows "e = Some (APIError err (StatusCode resp)) \<and> job' = job"
  using assms by (auto simp: updateJobFromRequest_def Do_def)

lemma doImageRequest_ok:
  assumes "doImageRequest req w = (w', Inr job)"
  shows "\<exists>resp r. transport w (length (sent w)) = Inr resp \<and> Decoded resp = Inr r \<and>
           rError r = None \<and> Status job = rStatus r \<and> TTL job = rTTL r \<and>
           Token job = rToken r \<and> URL job = normalizeURL (rURL r) \<and>
           sent w' = sent w @ [(clock w, req)]"
  using assms
  by (auto simp: doImageRequest_def Do_def Now_def tick_def Let_def
           split: sum.splits option.splits)

lemma RemoteImageRequest_ok:
  assumes "RemoteImageRequest lib c url params w = (w', p', Inr job)"
  shows "\<exists>req w1. doImageRequest req w1 = (w', Inr job) \<and> sent w1 = sent w \<and>
           transport w1 = transport w"
  using assms
  by (auto simp: RemoteImageRequest_def Let_def evolves_def
           split: if_splits prod.splits sum.splits dest!: getAuthHeader_world) blast+

lemma ImageRequest_ok:
  assumes "ImageRequest lib c img filename params w = (w', p', Inr job)"
  shows "\<exists>req w1. doImageRequest req w1 = (w', Inr job) \<and> sent w1 = sent w \<and>
           transport w1 = transport w"
  using assms
  by (auto simp: ImageRequest_def Let_def evolves_def
           split: if_splits prod.splits sum.splits dest!: getAuthHeader_world) blast+

lemma normalizeURL_relative: "normalizeURL (''//'' @ rest) = ''https://'' @ rest"
  by (simp add: normalizeURL_def)

lemma normalizeURL_other: "\<not> (\<exists>rest. u = ''//'' @ rest) \<Longrightarrow> normalizeURL u = u"
proof -
  assume a: "\<not> (\<exists>rest. u = ''//'' @ rest)"
  have "take 2 u \<noteq> ''//''"
  proof
    assume "take 2 u = ''//''"
    then have "u = ''//'' @ drop 2 u" by (metis append_take_drop_id)
    with a show False by blast
  qed
  then show ?thesis by (simp add: normalizeURL_def)
qed

lemma submitted_url:
  assumes "transport w (length (sent w)) = Inr resp" and "Decoded resp = Inr r"
    and "URL job = normalizeURL (rURL r)"
  shows "\<exists>resp r. transport w (length (sent w)) = Inr resp \<and> Decoded resp = Inr r \<and>
           (\<forall>rest. rURL r = ''//'' @ rest \<longrightarrow> URL job = ''https://'' @ rest) \<and>
           (\<not> (\<exists>rest. rURL r = ''//'' @ rest) \<longrightarrow> URL job = rURL r)"
  using assms normalizeURL_relative normalizeURL_other by metis

lemma getAuthHeader_params:
  assumes "getAuthHeader lib c method url (Some q) w = (w', q', r)"
  shows "\<exists>q''. q' = Some q'' \<and> sent w' = sent w \<and>
           (\<forall>k. k \<notin> {''oauth_nonce'', ''oauth_consumer_key'', ''oauth_signature_method'',
                       ''oauth_timestamp'', ''oauth_version''} \<longrightarrow> q'' k = q k)"
  using assms
  by (auto simp: getAuthHeader_def oauthSign_def rand_Read_def Now_def tick_def Let_def
           split: if_splits sum.splits)

lemma doImageRequest_sent:
  "doImageRequest req w = (w', r) \<Longrightarrow> sent w' = sent w @ [(clock w, req)]"
  by (auto simp: doImageRequest_def Do_def Now_def tick_def Let_def
           split: sum.splits option.splits)

lemma RemoteImageRequest_params:
  assumes "RemoteImageRequest lib c url (Some p) w = (w', params', r)"
  shows "\<exists>p'. params' = Some p' \<and>
           p' ''image_request[locale]''
             = Some (case p ''image_request[locale]'' of None \<Rightarrow> DefaultLocale | Some v \<Rightarrow> v) \<and>
           (sent w' = sent w \<or>
            (\<exists>t req q. sent w' = sent w @ [(t, req)] \<and> req_Body req = Some (Encode lib q) \<and>
               q ''image_request[locale]'' = p' ''image_request[locale]''))"
proof -
  let ?L = "''image_request[locale]''"
  let ?p1 = "if p ?L = None then p(?L \<mapsto> DefaultLocale) else p"
  let ?p2 = "?p1(''image_request[remote_image_url]'' \<mapsto> url)"
  have l: "?p2 ?L = Some (case p ?L of None \<Rightarrow> DefaultLocale | Some v \<Rightarrow> v)"
    by (auto split: option.splits)
  show ?thesis
  proof (cases "url_parses lib requestsURL")
    case False
    with assms l show ?thesis by (auto simp: RemoteImageRequest_def Let_def)
  next
    case True
    obtain w1 p3 a where g: "getAuthHeader lib c ''POST'' requestsURL (Some ?p2) w = (w1, p3, a)"
      by (cases "getAuthHeader lib c ''POST'' requestsURL (Some ?p2) w") auto
    from getAuthHeader_params[OF g] obtain q'' where q0: "p3 = Some q''" "sent w1 = sent w"
      and frame: "\<forall>k. k \<notin> {''oauth_nonce'', ''oauth_consumer_key'', ''oauth_signature_method'',
                       ''oauth_timestamp'', ''oauth_version''} \<longrightarrow> q'' k = ?p2 k"
      by blast
    have "?L \<notin> {''oauth_nonce'', ''oauth_consumer_key'', ''oauth_signature_method'',
                       ''oauth_timestamp'', ''oauth_version''}" by simp
    from frame[rule_format, OF this] have "q'' ?L = ?p2 ?L" .
    note q = q0 this
    show ?thesis
    proof (cases a)
      case (Inl err)
      with assms True g q l show ?thesis
        by (auto simp: RemoteImageRequest_def Let_def)
    next
      case (Inr auth)
      let ?req = "\<lparr>req_Method = ''POST'', req_URL = requestsURL,
                   req_Header = [''User-Agent'' \<mapsto> userAgent, ''Authorization'' \<mapsto> [auth],
                     ''Content-Length'' \<mapsto> [Itoa lib (int (length (Encode lib ?p2)))]],
                   req_Body = Some (Encode lib ?p2)\<rparr>"
      obtain w2 r2 where d: "doImageRequest ?req w1 = (w2, r2)"
        by (cases "doImageRequest ?req w1") auto
      from assms True g Inr d have e: "w' = w2" "params' = p3"
        by (auto simp: RemoteImageRequest_def Let_def)
      from doImageRequest_sent[OF d] q(2) e have
        s: "sent w' = sent w @ [(clock w1, ?req)]" by simp
      have b: "req_Body ?req = Some (Encode lib ?p2)" by simp
      have "\<exists>t req q. sent w' = sent w @ [(t, req)] \<and> req_Body req = Some (Encode lib q) \<and>
               q ?L = q'' ?L"
      proof (intro exI conjI)
        show "sent w' = sent w @ [(clock w1, ?req)]" by (rule s)
        show "req_Body ?req = Some (Encode lib ?p2)" by (rule b)
        show "?p2 ?L = q'' ?L" using q(3) by simp
      qed
      with e q(1,3) l show ?thesis by simp
    qed
  qed
qed

lemma ImageRequest_params:
  assumes "ImageRequest lib c (Inr content) filename (Some p) w = (w', params', r)"
  shows "\<exists>p'. params' = Some p' \<and>
           p' ''image_request[locale]''
             = Some (case p ''image_request[locale]'' of None \<Rightarrow> DefaultLocale | Some v \<Rightarrow> v) \<and>
           (sent w' = sent w \<or>
            (\<exists>t req q. sent w' = sent w @ [(t, req)] \<and>
               req_Body req = Some (multipart_form lib filename content q) \<and>
               q ''image_request[locale]'' = p' ''image_request[locale]''))"
proof -
  let ?L = "''image_request[locale]''"
  let ?p1 = "if p ?L = None then p(?L \<mapsto> DefaultLocale) else p"
  have l: "?p1 ?L = Some (case p ?L of None \<Rightarrow> DefaultLocale | Some v \<Rightarrow> v)"
    by (auto split: option.splits)
  show ?thesis
  proof (cases "url_parses lib requestsURL")
    case False
    with assms l show ?thesis by (auto simp: ImageRequest_def Let_def)
  next
    case True
    obtain w1 p2 a where g: "getAuthHeader lib c ''POST'' requestsURL (Some ?p1) w = (w1, p2, a)"
      by (cases "getAuthHeader lib c ''POST'' requestsURL (Some ?p1) w") auto
    from getAuthHeader_params[OF g] obtain q'' where q0: "p2 = Some q''" "sent w1 = sent w"
      and frame: "\<forall>k. k \<notin> {''oauth_nonce'', ''oauth_consumer_key'', ''oauth_signature_method'',
                       ''oauth_timestamp'', ''oauth_version''} \<longrightarrow> q'' k = ?p1 k"
      by blast
    have "?L \<notin> {''oauth_nonce'', ''oauth_consumer_key'', ''oauth_signature_method'',
                       ''oauth_timestamp'', ''oauth_version''}" by simp
    from frame[rule_format, OF this] have "q'' ?L = ?p1 ?L" .
    note q = q0 this
    show ?thesis
    proof (cases a)
      case (Inl err)
      with assms True g q l show ?thesis
        by (auto simp: ImageRequest_def Let_def)
    next
      case (Inr auth)
      let ?buf = "multipart_form lib filename content ?p1"
      let ?req = "\<lparr>req_Method = ''POST'', req_URL = requestsURL,
                   req_Header = [''User-Agent'' \<mapsto> userAgent, ''Authorization'' \<mapsto> [auth],
                     ''Content-Length'' \<mapsto> [Itoa lib (int (length ?buf))],
                     ''Content-Type'' \<mapsto> [FormDataContentType lib]],
                   req_Body = Some ?buf\<rparr>"
      obtain w2 r2 where d: "doImageRequest ?req w1 = (w2, r2)"
        by (cases "doImageRequest ?req w1") auto
      from assms True g Inr d have e: "w' = w2" "params' = p2"
        by (auto simp: ImageRequest_def Let_def)
      from doImageRequest_sent[OF d] q(2) e have
        s: "sent w' = sent w @ [(clock w1, ?req)]" by simp
      have b: "req_Body ?req = Some ?buf" by simp
      have "\<exists>t req q. sent w' = sent w @ [(t, req)] \<and>
               req_Body req = Some (multipart_form lib filename content q) \<and>
               q ?L = q'' ?L"
      proof (intro exI conjI)
        show "sent w' = sent w @ [(clock w1, ?req)]" by (rule s)
        show "req_Body ?req = Some ?buf" by (rule b)
        show "?p1 ?L = q'' ?L" using q(3) by simp
      qed
      with e q(1,3) l show ?thesis by simp
    qed
  qed
qed

text \<open>
  What a submission signs: the header comes from \<open>getAuthHeader\<close> applied to the map
  that already holds the locale, in the world as it was at the call.
\<close>

lemma RemoteImageRequest_signs:
  assumes "RemoteImageRequest lib c url (Some p) w = (w', params', r)"
    and "url_parses lib requestsURL"
  shows "(\<exists>w1 err.
            getAuthHeader lib c ''POST'' requestsURL
              (Some ((if p ''image_request[locale]'' = None
                      then p(''image_request[locale]'' \<mapsto> DefaultLocale) else p)
                     (''image_request[remote_image_url]'' \<mapsto> url))) w
              = (w1, params', Inl err) \<and>
            r = Inl err \<and> sent w' = sent w) \<or>
         (\<exists>w1 auth t req.
            getAuthHeader lib c ''POST'' requestsURL
              (Some ((if p ''image_request[locale]'' = None
                      then p(''image_request[locale]'' \<mapsto> DefaultLocale) else p)
                     (''image_request[remote_image_url]'' \<mapsto> url))) w
              = (w1, params', Inr auth) \<and>
            sent w' = sent w @ [(t, req)] \<and>
            req_Header req ''Authorization'' = Some [auth] \<and>
            req_Body req
              = Some (Encode lib
                  ((if p ''image_request[locale]'' = None
                    then p(''image_request[locale]'' \<mapsto> DefaultLocale) else p)
                   (''image_request[remote_image_url]'' \<mapsto> url))))"
proof -
  let ?L = "''image_request[locale]''"
  let ?q = "(if p ?L = None then p(?L \<mapsto> DefaultLocale) else p)
              (''image_request[remote_image_url]'' \<mapsto> url)"
  obtain w1 p3 a where g: "getAuthHeader lib c ''POST'' requestsURL (Some ?q) w = (w1, p3, a)"
    by (cases "getAuthHeader lib c ''POST'' requestsURL (Some ?q) w") auto
  from getAuthHeader_params[OF g] obtain q'' where q: "p3 = Some q''" "sent w1 = sent w"
    by blast
  show ?thesis
  proof (cases a)
    case (Inl err)
    with assms g q have "params' = p3 \<and> r = Inl err \<and> w' = w1"
      by (auto simp: RemoteImageRequest_def Let_def)
    with g Inl q(2) show ?thesis by auto
  next
    case (Inr auth)
    let ?req = "\<lparr>req_Method = ''POST'', req_URL = requestsURL,
                 req_Header = [''User-Agent'' \<mapsto> userAgent, ''Authorization'' \<mapsto> [auth],
                   ''Content-Length'' \<mapsto> [Itoa lib (int (length (Encode lib ?q)))]],
                 req_Body = Some (Encode lib ?q)\<rparr>"
    obtain w2 r2 where d: "doImageRequest ?req w1 = (w2, r2)"
      by (cases "doImageRequest ?req w1") auto
    from assms g Inr d q have e: "w' = w2" "params' = p3"
      by (auto simp: RemoteImageRequest_def Let_def)
    from doImageRequest_sent[OF d] q(2) e have
      s: "sent w' = sent w @ [(clock w1, ?req)]" by simp
    have "\<exists>w1 auth t req.
            getAuthHeader lib c ''POST'' requestsURL (Some ?q) w = (w1, params', Inr auth) \<and>
            sent w' = sent w @ [(t, req)] \<and>
            req_Header req ''Authorization'' = Some [auth] \<and>
            req_Body req = Some (Encode lib ?q)"
    proof (intro exI conjI)
      show "getAuthHeader lib c ''POST'' requestsURL (Some ?q) w = (w1, params', Inr auth)"
        using g Inr e by simp
      show "sent w' = sent w @ [(clock w1, ?req)]" by (rule s)
      show "req_Header ?req ''Authorization'' = Some [auth]" by simp
      show "req_Body ?req = Some (Encode lib ?q)" by simp
    qed
    then show ?thesis by (rule disjI2)
  qed
qed

lemma ImageRequest_signs:
  assumes "ImageRequest lib c (Inr content) filename (Some p) w = (w', params', r)"
    and "url_parses lib requestsURL"
  shows "(\<exists>w1 err.
            getAuthHeader lib c ''POST'' requestsURL
              (Some (if p ''image_request[locale]'' = None
                     then p(''image_request[locale]'' \<mapsto> DefaultLocale) else p)) w
              = (w1, params', Inl err) \<and>
            r = Inl err \<and> sent w' = sent w) \<or>
         (\<exists>w1 auth t req.
            getAuthHeader lib c ''POST'' requestsURL
              (Some (if p ''image_request[locale]'' = None
                     then p(''image_request[locale]'' \<mapsto> DefaultLocale) else p)) w
              = (w1, params', Inr auth) \<and>
            sent w' = sent w @ [(t, req)] \<and>
            req_Header req ''Authorization'' = Some [auth] \<and>
            req_Body req
              = Some (multipart_form lib filename content
                  (if p ''image_request[locale]'' = None
                   then p(''image_request[locale]'' \<mapsto> DefaultLocale) else p)))"
proof -
  let ?L = "''image_request[locale]''"
  let ?q = "if p ?L = None then p(?L \<mapsto> DefaultLocale) else p"
  obtain w1 p3 a where g: "getAuthHeader lib c ''POST'' requestsURL (Some ?q) w = (w1, p3, a)"
    by (cases "getAuthHeader lib c ''POST'' requestsURL (Some ?q) w") auto
  from getAuthHeader_params[OF g] obtain q'' where q: "p3 = Some q''" "sent w1 = sent w"
    by blast
  show ?thesis
  proof (cases a)
    case (Inl err)
    with assms g q have "params' = p3 \<and> r = Inl err \<and> w' = w1"
      by (auto simp: ImageRequest_def Let_def)
    with g Inl q(2) show ?thesis by auto
  next
    case (Inr auth)
    let ?buf = "multipart_form lib filename content ?q"
    let ?req = "\<lparr>req_Method = ''POST'', req_URL = requestsURL,
                 req_Header = [''User-Agent'' \<mapsto> userAgent, ''Authorization'' \<mapsto> [auth],
                   ''Content-Length'' \<mapsto> [Itoa lib (int (length ?buf))],
                   ''Content-Type'' \<mapsto> [FormDataContentType lib]],
                 req_Body = Some ?buf\<rparr>"
    obtain w2 r2 where d: "doImageRequest ?req w1 = (w2, r2)"
      by (cases "doImageRequest ?req w1") auto
    from assms g Inr d q have e: "w' = w2" "params' = p3"
      by (auto simp: ImageRequest_def Let_def)
    from doImageRequest_sent[OF d] q(2) e have
      s: "sent w' = sent w @ [(clock w1, ?req)]" by simp
    have "\<exists>w1 auth t req.
            getAuthHeader lib c ''POST'' requestsURL (Some ?q) w = (w1, params', Inr auth) \<and>
            sent w' = sent w @ [(t, req)] \<and>
            req_Header req ''Authorization'' = Some [auth] \<and>
            req_Body req = Some ?buf"
    proof (intro exI conjI)
      show "getAuthHeader lib c ''POST'' requestsURL (Some ?q) w = (w1, params', Inr auth)"
        using g Inr e by simp
      show "sent w' = sent w @ [(clock w1, ?req)]" by (rule s)
      show "req_Header ?req ''Authorization'' = Some [auth]" by simp
      show "req_Body ?req = Some ?buf" by simp
    qed
    then show ?thesis by (rule disjI2)
  qed
qed

lemma ex_header:
  "\<exists>w1 ps. getAuthHeader ex_lib ex_oauth ''POST'' requestsURL
       (Some [''image_request[locale]'' \<mapsto> ''en-US'',
              ''image_request[remote_image_url]'' \<mapsto> ex_image_url]) (ex_world ex_pending)
     = (w1, ps,
        Inr (''OAuth '' @
             Join [quoted ''oauth_consumer_key'' ''api-key'',
                   quoted ''oauth_nonce'' ''c0ffee'',
                   quoted ''oauth_signature''
                     ''POST&https://api.cloudsightapi.com/image_requests&en-US'',
                   quoted ''oauth_signature_method'' ''HMAC-SHA1'',
                   quoted ''oauth_timestamp'' ''1'',
                   quoted ''oauth_version'' ''1.0''] '', ''))"
  by (simp add: getAuthHeader_def oauthSign_def rand_Read_def Now_def ex_oauth_def ex_world_def
      ex_lib_def lookup_def Second_def oauthSignatureMethod_def oauthVersion_def
      requestsURL_def BaseURL_def Let_def)

lemma ex_signs:
  "\<exists>w1 ps auth. getAuthHeader ex_lib ex_oauth ''POST'' requestsURL (Some q) (ex_world ex_pending)
     = (w1, ps, Inr auth)"
  by (simp add: getAuthHeader_def oauthSign_def rand_Read_def Now_def ex_oauth_def ex_world_def
      Let_def)

lemma RepostJob_job_unchanged:
  "RepostJob lib c job w = (w', job', e) \<Longrightarrow> job' = job"
  by (auto simp: RepostJob_def Let_def StatusTimeout_def StatusNotCompleted_def UpdateJob_def
           split: if_splits prod.splits sum.splits)

text \<open>The definitions a concrete run unfolds.\<close>

lemmas ex_eval = RemoteImageRequest_def ImageRequest_def doImageRequest_def UpdateJob_def
  RepostJob_def getAuthHeader_def oauthSign_def rand_Read_def updateJobFromRequest_def Do_def
  Now_def tick_def normalizeURL_def ex_lib_def ex_oauth_def ex_simple_def ex_job_def
  ex_payload_def ex_ok_def ex_world_def ex_pending_def ex_bogus_def ex_absolute_def
  ex_api_error_def Let_def

section \<open>Polling a job that has left "not completed"\<close>

text \<open>
  C1. For a job whose status is anything but "not completed" (completed, not found,
  skipped, timeout, or any other text), \<open>UpdateJob\<close> returns nil and gives back the
  world and the job exactly as they were: no request is added to the log, the clock is
  not read, no field of the job changes. The job it gives back still has a status
  other than "not completed", so the same holds for every later poll.
\<close>

theorem UpdateJob_terminal_noop:
  assumes "Status job \<noteq> StatusNotCompleted"
  shows "UpdateJob lib c job w = (w, job, None) \<and>
         UpdateJob lib c (fst (snd (UpdateJob lib c job w))) (fst (UpdateJob lib c job w))
           = (w, job, None)"
  using assms by (simp add: UpdateJob_def)

theorem UpdateJob_terminal_noop_witness:
  "Status (ex_job StatusCompleted) \<noteq> StatusNotCompleted \<and>
   Status (ex_job StatusNotFound) \<noteq> StatusNotCompleted \<and>
   Status (ex_job StatusSkipped) \<noteq> StatusNotCompleted \<and>
   Status (ex_job StatusTimeout) \<noteq> StatusNotCompleted \<and>
   UpdateJob ex_lib ex_oauth (ex_job StatusCompleted) (ex_world (\<lambda>k. Inl ''down''))
     = (ex_world (\<lambda>k. Inl ''down''), ex_job StatusCompleted, None) \<and>
   UpdateJob ex_lib ex_oauth (ex_job StatusNotFound) (ex_world (\<lambda>k. Inl ''down''))
     = (ex_world (\<lambda>k. Inl ''down''), ex_job StatusNotFound, None) \<and>
   UpdateJob ex_lib ex_oauth (ex_job StatusSkipped) (ex_world (\<lambda>k. Inl ''down''))
     = (ex_world (\<lambda>k. Inl ''down''), ex_job StatusSkipped, None) \<and>
   UpdateJob ex_lib ex_oauth (ex_job StatusTimeout) (ex_world (\<lambda>k. Inl ''down''))
     = (ex_world (\<lambda>k. Inl ''down''), ex_job StatusTimeout, None)"
proof -
  have 1: "Status (ex_job StatusCompleted) \<noteq> StatusNotCompleted"
    and 2: "Status (ex_job StatusNotFound) \<noteq> StatusNotCompleted"
    and 3: "Status (ex_job StatusSkipped) \<noteq> StatusNotCompleted"
    and 4: "Status (ex_job StatusTimeout) \<noteq> StatusNotCompleted"
    by (simp_all add: ex_job_def StatusCompleted_def StatusNotFound_def StatusSkipped_def
          StatusTimeout_def StatusNotCompleted_def)
  show ?thesis
    using 1 2 3 4
      UpdateJob_terminal_noop [OF 1, of ex_lib ex_oauth "ex_world (\<lambda>k. Inl ''down'')"]
      UpdateJob_terminal_noop [OF 2, of ex_lib ex_oauth "ex_world (\<lambda>k. Inl ''down'')"]
      UpdateJob_terminal_noop [OF 3, of ex_lib ex_oauth "ex_world (\<lambda>k. Inl ''down'')"]
      UpdateJob_terminal_noop [OF 4, of ex_lib ex_oauth "ex_world (\<lambda>k. Inl ''down'')"]
    by simp
qed

section \<open>Reposting\<close>

text \<open>
  C4. For a job whose status is not "timeout" (in particular not completed, completed,
  not found or skipped), \<open>RepostJob\<close> returns \<open>ErrInvalidRepostStatus\<close> and gives back
  the world and the job exactly as they were: the check comes before any request, any
  reading of the clock or of the random source.
\<close>

theorem RepostJob_rejects_other_status:
  assumes "Status job \<noteq> StatusTimeout"
  shows "RepostJob lib c job w = (w, job, Some ErrInvalidRepostStatus)"
  using assms by (simp add: RepostJob_def)

theorem RepostJob_rejects_other_status_witness:
  "Status (ex_job StatusNotCompleted) \<noteq> StatusTimeout \<and>
   Status (ex_job StatusCompleted) \<noteq> StatusTimeout \<and>
   Status (ex_job StatusNotFound) \<noteq> StatusTimeout \<and>
   Status (ex_job StatusSkipped) \<noteq> StatusTimeout \<and>
   RepostJob ex_lib ex_oauth (ex_job StatusNotCompleted) (ex_world (\<lambda>k. Inl ''down''))
     = (ex_world (\<lambda>k. Inl ''down''), ex_job StatusNotCompleted, Some ErrInvalidRepostStatus) \<and>
   RepostJob ex_lib ex_oauth (ex_job StatusCompleted) (ex_world (\<lambda>k. Inl ''down''))
     = (ex_world (\<lambda>k. Inl ''down''), ex_job StatusCompleted, Some ErrInvalidRepostStatus) \<and>
   RepostJob ex_lib ex_oauth (ex_job StatusNotFound) (ex_world (\<lambda>k. Inl ''down''))
     = (ex_world (\<lambda>k. Inl ''down''), ex_job StatusNotFound, Some ErrInvalidRepostStatus) \<and>
   RepostJob ex_lib ex_oauth (ex_job StatusSkipped) (ex_world (\<lambda>k. Inl ''down''))
     = (ex_world (\<lambda>k. Inl ''down''), ex_job StatusSkipped, Some ErrInvalidRepostStatus)"
proof -
  have 1: "Status (ex_job StatusNotCompleted) \<noteq> StatusTimeout"
    and 2: "Status (ex_job StatusCompleted) \<noteq> StatusTimeout"
    and 3: "Status (ex_job StatusNotFound) \<noteq> StatusTimeout"
    and 4: "Status (ex_job StatusSkipped) \<noteq> StatusTimeout"
    by (simp_all add: ex_job_def StatusCompleted_def StatusNotFound_def StatusSkipped_def
          StatusTimeout_def StatusNotCompleted_def)
  show ?thesis
    using 1 2 3 4
      RepostJob_rejects_other_status [OF 1, of ex_lib ex_oauth "ex_world (\<lambda>k. Inl ''down'')"]
      RepostJob_rejects_other_status [OF 2, of ex_lib ex_oauth "ex_world (\<lambda>k. Inl ''down'')"]
      RepostJob_rejects_other_status [OF 3, of ex_lib ex_oauth "ex_world (\<lambda>k. Inl ''down'')"]
      RepostJob_rejects_other_status [OF 4, of ex_lib ex_oauth "ex_world (\<lambda>k. Inl ''down'')"]
    by simp
qed

section \<open>Waiting\<close>



text \<open>
  C3. Whether \<open>WaitJob\<close> has returned or is still in its loop after \<open>n\<close> passes, every
  request it has issued so far was issued at or after \<open>createdAt + 4 s\<close>, and each
  request at least one second after the one before (the log of earlier requests is
  kept as it was). Before the loop \<open>WaitJob\<close> issues no request and, when that instant
  is still ahead, sleeps until the clock has reached it.
\<close>

theorem WaitJob_quiet_period:
  assumes "WaitJob n lib c job timeout w = Some (w', job', e) \<or>
           WaitJob_run n lib c job timeout w = Continue (w', job')"
  shows "list_all (\<lambda>t. createdAt job + 4 * Second \<le> t) (issued w w') \<and>
         spaced Second (issued w w') \<and>
         take (length (sent w)) (sent w') = sent w \<and>
         sent (snd (WaitJob_start job timeout w)) = sent w \<and>
         createdAt job + 4 * Second \<le> clock (snd (WaitJob_start job timeout w))"
proof -
  have "w' = world_of (WaitJob_run n lib c job timeout w)"
    using assms by (auto simp: WaitJob_def split: step.splits)
  moreover obtain timeoutAt w3 where st: "WaitJob_start job timeout w = (timeoutAt, w3)"
    by (cases "WaitJob_start job timeout w") auto
  ultimately show ?thesis
    using WaitJob_run_trace [of job w n lib c timeout] WaitJob_start_facts [OF st]
    by (simp add: pollMinWait_def)
qed

theorem WaitJob_quiet_period_witness:
  "\<exists>w' job'. WaitJob 3 ex_lib ex_simple (ex_job StatusNotCompleted) (30 * Second)
       (ex_world ex_transport) = Some (w', job', None) \<and>
     issued (ex_world ex_transport) w' = [4003000000, 5006000000] \<and>
     createdAt (ex_job StatusNotCompleted) + 4 * Second = 4000000000 \<and>
     list_all (\<lambda>t. createdAt (ex_job StatusNotCompleted) + 4 * Second \<le> t)
       (issued (ex_world ex_transport) w') \<and>
     spaced Second (issued (ex_world ex_transport) w')"
proof -
  from ex_wait obtain w' job' where
    r: "WaitJob 3 ex_lib ex_simple (ex_job StatusNotCompleted) (30 * Second)
          (ex_world ex_transport) = Some (w', job', None)"
    and s: "map fst (sent w') = [4003000000, 5006000000]"
    by auto
  have i: "issued (ex_world ex_transport) w' = [4003000000, 5006000000]"
    using s by (simp add: issued_def ex_world_def)
  have c: "createdAt (ex_job StatusNotCompleted) + 4 * Second = 4000000000"
    by (simp add: ex_job_def Second_def)
  from WaitJob_quiet_period [OF disjI1 [OF r]] r i c show ?thesis by simp
qed

section \<open>Reposting a job that has timed out\<close>

text \<open>
  C5. The claim is that \<open>RepostJob\<close>, once the POST has succeeded, polls and brings the job
  from "timeout" back to "not completed". The code calls \<open>UpdateJob\<close> there, but the
  job's status is still "timeout", so that call returns at once: for every input
  \<open>RepostJob\<close> gives the job back as it was. On the concrete run below the transport
  answers the POST with 200 and would answer a poll with "not completed"; \<open>RepostJob\<close>
  returns nil, the job still has the status "timeout", and the only request issued is
  the POST to the repost address.
\<close>

theorem RepostJob_never_polls:
  "fst (snd (RepostJob lib c job w)) = job \<and>
   snd (RepostJob ex_lib ex_simple (ex_job StatusTimeout) (ex_world ex_pending))
     = (ex_job StatusTimeout, None) \<and>
   map (req_Method \<circ> snd)
     (sent (fst (RepostJob ex_lib ex_simple (ex_job StatusTimeout) (ex_world ex_pending))))
     = [''POST''] \<and>
   map (req_URL \<circ> snd)
     (sent (fst (RepostJob ex_lib ex_simple (ex_job StatusTimeout) (ex_world ex_pending))))
     = [''https://api.cloudsightapi.com/image_requests/abc/repost'']"
proof -
  have "fst (snd (RepostJob lib c job w)) = job"
    using RepostJob_job_unchanged [of lib c job w "fst (RepostJob lib c job w)"
        "fst (snd (RepostJob lib c job w))" "snd (snd (RepostJob lib c job w))"]
    by simp
  moreover have "snd (RepostJob ex_lib ex_simple (ex_job StatusTimeout) (ex_world ex_pending))
     = (ex_job StatusTimeout, None) \<and>
   map (req_Method \<circ> snd)
     (sent (fst (RepostJob ex_lib ex_simple (ex_job StatusTimeout) (ex_world ex_pending))))
     = [''POST''] \<and>
   map (req_URL \<circ> snd)
     (sent (fst (RepostJob ex_lib ex_simple (ex_job StatusTimeout) (ex_world ex_pending))))
     = [''https://api.cloudsightapi.com/image_requests/abc/repost'']"
    by (simp add: ex_eval StatusTimeout_def StatusNotCompleted_def requestsURL_def BaseURL_def)
  ultimately show ?thesis by simp
qed

section \<open>Errors reported by the service\<close>

text \<open>
  C6. Whatever \<open>UpdateJob\<close> returns:
  \<^item> when it has made a poll (a request was added to the log) and the decoded payload
    carries an error, it returns \<open>APIError\<close> with that payload and the HTTP status code,
    and the job is as it was, its status still "not completed";
  \<^item> whenever it returns an error the job is as it was;
  \<^item> when it returns nil the job is as it was, or differs from it exactly in
    \<open>Categories\<close>, \<open>Name\<close>, \<open>Status\<close>, \<open>TTL\<close> and \<open>SkipReason\<close>, taken from the decoded
    payload;
  \<^item> \<open>Token\<close>, \<open>URL\<close> and \<open>createdAt\<close> never change.
\<close>

theorem UpdateJob_error_leaves_job:
  assumes "UpdateJob lib c job w = (w', job', e)"
  shows "(\<forall>resp r err.
            sent w' \<noteq> sent w \<and> transport w (length (sent w)) = Inr resp \<and>
            Decoded resp = Inr r \<and> rError r = Some err \<longrightarrow>
            e = Some (APIError err (StatusCode resp)) \<and> job' = job \<and>
            Status job' = StatusNotCompleted) \<and>
         (e \<noteq> None \<longrightarrow> job' = job) \<and>
         (e = None \<longrightarrow>
            job' = job \<or>
            (\<exists>resp r. transport w (length (sent w)) = Inr resp \<and> Decoded resp = Inr r \<and>
               job' = job\<lparr>Categories := rCategories r, Name := rName r,
                           Status := rStatus r, TTL := rTTL r,
                           SkipReason := rReason r\<rparr>)) \<and>
         Token job' = Token job \<and> URL job' = URL job \<and> createdAt job' = createdAt job"
proof -
  have 1: "e = Some (APIError err (StatusCode resp)) \<and> job' = job \<and>
           Status job' = StatusNotCompleted"
    if "sent w' \<noteq> sent w" "transport w (length (sent w)) = Inr resp"
       "Decoded resp = Inr r" "rError r = Some err" for resp r err
  proof -
    from UpdateJob_polls[OF assms that(1)] obtain wa req where
      u: "updateJobFromRequest job req wa = (w', job', e)" and s: "sent wa = sent w"
      "transport wa = transport w" and st: "Status job = StatusNotCompleted"
      by blast
    from updateJobFromRequest_api_error[OF u _ that(3,4)] that(2) s st show ?thesis by simp
  qed
  have 2: "job' = job" if "e \<noteq> None"
    using UpdateJob_error[of lib c job w w' job'] assms that by auto
  have 3: "job' = job \<or>
            (\<exists>resp r. transport w (length (sent w)) = Inr resp \<and> Decoded resp = Inr r \<and>
               job' = job\<lparr>Categories := rCategories r, Name := rName r,
                           Status := rStatus r, TTL := rTTL r,
                           SkipReason := rReason r\<rparr>)" if "e = None"
  proof (cases "sent w' = sent w")
    case True
    with assms show ?thesis
      by (auto simp: UpdateJob_def Let_def split: if_splits prod.splits sum.splits
               dest!: getAuthHeader_world updateJobFromRequest_world)
  next
    case False
    from UpdateJob_polls[OF assms False] obtain wa req where
      u: "updateJobFromRequest job req wa = (w', job', e)" and s: "sent wa = sent w"
      "transport wa = transport w"
      by blast
    from updateJobFromRequest_ok[of job req wa w' job'] u that s show ?thesis by auto
  qed
  from 1 2 3 UpdateJob_frame[OF assms] show ?thesis by blast
qed

theorem UpdateJob_error_leaves_job_witness:
  "UpdateJob ex_lib ex_oauth (ex_job StatusNotCompleted) (ex_world ex_api_error)
     = (fst (UpdateJob ex_lib ex_oauth (ex_job StatusNotCompleted) (ex_world ex_api_error)),
        ex_job StatusNotCompleted, Some (APIError ''bad token'' 401)) \<and>
   length (sent (fst (UpdateJob ex_lib ex_oauth (ex_job StatusNotCompleted)
                        (ex_world ex_api_error)))) = 1 \<and>
   Status (ex_job StatusNotCompleted) = ''not completed''"
proof -
  let ?r = "UpdateJob ex_lib ex_oauth (ex_job StatusNotCompleted) (ex_world ex_api_error)"
  have s: "length (sent (fst ?r)) = 1"
    by (simp add: UpdateJob_def getAuthHeader_def oauthSign_def rand_Read_def
        updateJobFromRequest_def Do_def Now_def tick_def ex_lib_def ex_oauth_def ex_job_def
        ex_payload_def ex_world_def ex_api_error_def StatusNotCompleted_def Let_def)
  have t: "transport (ex_world ex_api_error) (length (sent (ex_world ex_api_error)))
             = Inr \<lparr>StatusCode = 401, Body = [],
                    Decoded = Inr (ex_payload StatusCompleted (Some ''bad token''))\<rparr>"
    by (simp add: ex_world_def ex_api_error_def)
  have n: "sent (fst ?r) \<noteq> sent (ex_world ex_api_error)"
    using s by (auto simp: ex_world_def)
  have e: "rError (ex_payload StatusCompleted (Some ''bad token'')) = Some ''bad token''"
    by (simp add: ex_payload_def)
  from UpdateJob_error_leaves_job [of ex_lib ex_oauth "ex_job StatusNotCompleted"
      "ex_world ex_api_error" "fst ?r" "fst (snd ?r)" "snd (snd ?r)"] n t e
  have "snd (snd ?r) = Some (APIError ''bad token'' 401) \<and>
        fst (snd ?r) = ex_job StatusNotCompleted"
    by simp
  then have "?r = (fst ?r, ex_job StatusNotCompleted, Some (APIError ''bad token'' 401))"
    by (simp add: prod_eq_iff)
  with s show ?thesis by (simp add: ex_job_def StatusNotCompleted_def)
qed

section \<open>Signing\<close>

text \<open>
  C7. When \<open>oauthSign\<close> is given a non-nil map and returns a header, the caller's map has
  the keys it had and the five keys \<open>oauth_nonce\<close>, \<open>oauth_consumer_key\<close>,
  \<open>oauth_signature_method\<close>, \<open>oauth_timestamp\<close>, \<open>oauth_version\<close>; every other key has
  the value it had; the five hold the hex SHA-256 of the random bytes, the consumer
  key, \<open>HMAC-SHA1\<close>, the Unix time in seconds, and \<open>1.0\<close>.
\<close>

theorem oauthSign_injects:
  assumes "oauthSign lib method url ckey csecret (Some p) w = (w', params', Inr hdr)"
  shows "\<exists>p' b. params' = Some p' \<and>
           dom p' = dom p \<union> {''oauth_nonce'', ''oauth_consumer_key'',
                               ''oauth_signature_method'', ''oauth_timestamp'',
                               ''oauth_version''} \<and>
           (\<forall>k. k \<notin> {''oauth_nonce'', ''oauth_consumer_key'', ''oauth_signature_method'',
                       ''oauth_timestamp'', ''oauth_version''} \<longrightarrow> p' k = p k) \<and>
           rand_src w (rand_calls w) = Inr b \<and>
           p' ''oauth_nonce'' = Some (sha256_hex lib b) \<and>
           p' ''oauth_consumer_key'' = Some ckey \<and>
           p' ''oauth_signature_method'' = Some ''HMAC-SHA1'' \<and>
           p' ''oauth_timestamp'' = Some (Itoa lib (clock w div 1000000000)) \<and>
           p' ''oauth_version'' = Some ''1.0''"
  using assms
  by (auto simp: oauthSign_def rand_Read_def Now_def tick_def Let_def Second_def
        oauthSignatureMethod_def oauthVersion_def split: sum.splits)

theorem oauthSign_injects_witness:
  "\<exists>w' p' hdr.
     oauthSign ex_lib ''POST'' requestsURL ''api-key'' ''api-secret''
       (Some [''image_request[locale]'' \<mapsto> ''en'']) (ex_world ex_pending)
       = (w', Some p', Inr hdr) \<and>
     dom p' = {''image_request[locale]'', ''oauth_nonce'', ''oauth_consumer_key'',
               ''oauth_signature_method'', ''oauth_timestamp'', ''oauth_version''} \<and>
     p' ''image_request[locale]'' = Some ''en'' \<and>
     p' ''oauth_nonce'' = Some ''c0ffee'' \<and>
     p' ''oauth_consumer_key'' = Some ''api-key'' \<and>
     p' ''oauth_timestamp'' = Some ''1''"
proof -
  let ?r = "oauthSign ex_lib ''POST'' requestsURL ''api-key'' ''api-secret''
       (Some [''image_request[locale]'' \<mapsto> ''en'']) (ex_world ex_pending)"
  have "\<exists>w' ps hdr. ?r = (w', ps, Inr hdr)"
    by (simp add: oauthSign_def rand_Read_def Now_def ex_world_def Let_def)
  then obtain w' ps hdr where r: "?r = (w', ps, Inr hdr)" by blast
  from oauthSign_injects [OF r] obtain p' b where
    p: "ps = Some p'"
       "dom p' = dom [''image_request[locale]'' \<mapsto> ''en''] \<union>
          {''oauth_nonce'', ''oauth_consumer_key'', ''oauth_signature_method'',
           ''oauth_timestamp'', ''oauth_version''}"
       "\<forall>k. k \<notin> {''oauth_nonce'', ''oauth_consumer_key'', ''oauth_signature_method'',
                       ''oauth_timestamp'', ''oauth_version''} \<longrightarrow>
            p' k = [''image_request[locale]'' \<mapsto> ''en''] k"
       "rand_src (ex_world ex_pending) (rand_calls (ex_world ex_pending)) = Inr b"
       "p' ''oauth_nonce'' = Some (sha256_hex ex_lib b)"
       "p' ''oauth_consumer_key'' = Some ''api-key''"
       "p' ''oauth_timestamp'' = Some (Itoa ex_lib (clock (ex_world ex_pending) div 1000000000))"
    by (elim exE conjE) (rule that; assumption)
  have 1: "dom p' = {''image_request[locale]'', ''oauth_nonce'', ''oauth_consumer_key'',
               ''oauth_signature_method'', ''oauth_timestamp'', ''oauth_version''}"
    using p(2) by auto
  have "''image_request[locale]'' \<notin> {''oauth_nonce'', ''oauth_consumer_key'',
          ''oauth_signature_method'', ''oauth_timestamp'', ''oauth_version''}" by simp
  from p(3)[rule_format, OF this] have 2: "p' ''image_request[locale]'' = Some ''en''" by simp
  have 3: "p' ''oauth_nonce'' = Some ''c0ffee''" using p(5) by (simp add: ex_lib_def)
  have 4: "p' ''oauth_timestamp'' = Some ''1''"
    using p(7) by (simp add: ex_lib_def ex_world_def Second_def)
  from r p(1,6) 1 2 3 4 show ?thesis by simp
qed

section \<open>Submission\<close>

text \<open>
  C8. The job that a submission (\<open>doImageRequest\<close>, and \<open>ImageRequest\<close> and
  \<open>RemoteImageRequest\<close> through it) returns was built from the payload of the response
  to its request: when the payload's URL is \<open>//\<close> followed by some text, the job's URL
  is \<open>https://\<close> followed by that text; when it does not start with \<open>//\<close> the job's URL
  is the payload's URL.
\<close>

theorem submission_normalizes_url:
  "(doImageRequest req w = (w', Inr job) \<or>
    ImageRequest lib c img filename params w = (w', params', Inr job) \<or>
    RemoteImageRequest lib c url params w = (w', params', Inr job)) \<longrightarrow>
   (\<exists>resp r. transport w (length (sent w)) = Inr resp \<and> Decoded resp = Inr r \<and>
      (\<forall>rest. rURL r = ''//'' @ rest \<longrightarrow> URL job = ''https://'' @ rest) \<and>
      (\<not> (\<exists>rest. rURL r = ''//'' @ rest) \<longrightarrow> URL job = rURL r))"
proof
  assume a: "doImageRequest req w = (w', Inr job) \<or>
    ImageRequest lib c img filename params w = (w', params', Inr job) \<or>
    RemoteImageRequest lib c url params w = (w', params', Inr job)"
  have "\<exists>rq w1. doImageRequest rq w1 = (w', Inr job) \<and> sent w1 = sent w \<and>
           transport w1 = transport w"
    using a ImageRequest_ok RemoteImageRequest_ok by blast
  then obtain rq w1 where d: "doImageRequest rq w1 = (w', Inr job)" and s: "sent w1 = sent w"
    "transport w1 = transport w" by blast
  from doImageRequest_ok[OF d] s obtain resp r where
    "transport w (length (sent w)) = Inr resp" "Decoded resp = Inr r"
    "URL job = normalizeURL (rURL r)" by auto
  then show "\<exists>resp r. transport w (length (sent w)) = Inr resp \<and> Decoded resp = Inr r \<and>
      (\<forall>rest. rURL r = ''//'' @ rest \<longrightarrow> URL job = ''https://'' @ rest) \<and>
      (\<not> (\<exists>rest. rURL r = ''//'' @ rest) \<longrightarrow> URL job = rURL r)"
    by (rule submitted_url)
qed

theorem submission_normalizes_url_witness:
  "(\<exists>w' p' job. RemoteImageRequest ex_lib ex_simple ex_image_url None (ex_world ex_pending)
       = (w', p', Inr job) \<and> URL job = ''https://host/abc.jpg'') \<and>
   (\<exists>w' p' job. RemoteImageRequest ex_lib ex_simple ex_image_url None (ex_world ex_absolute)
       = (w', p', Inr job) \<and> URL job = ''http://host/abc.jpg'')"
proof -
  have "\<exists>w' p' job. RemoteImageRequest ex_lib ex_simple ex_image_url None (ex_world ex_pending)
       = (w', p', Inr job)"
    by (simp add: ex_eval)
  then obtain w1 p1 job1 where 1: "RemoteImageRequest ex_lib ex_simple ex_image_url None
       (ex_world ex_pending) = (w1, p1, Inr job1)" by blast
  have "\<exists>w' p' job. RemoteImageRequest ex_lib ex_simple ex_image_url None (ex_world ex_absolute)
       = (w', p', Inr job)"
    by (simp add: ex_eval)
  then obtain w2 p2 job2 where 2: "RemoteImageRequest ex_lib ex_simple ex_image_url None
       (ex_world ex_absolute) = (w2, p2, Inr job2)" by blast
  from submission_normalizes_url [rule_format, OF disjI2 [OF disjI2 [OF 1]]]
  have a: "URL job1 = ''https://host/abc.jpg''"
    by (auto simp: ex_world_def ex_pending_def ex_ok_def ex_payload_def)
  from submission_normalizes_url [rule_format, OF disjI2 [OF disjI2 [OF 2]]]
  have b: "URL job2 = ''http://host/abc.jpg''"
    by (auto simp: ex_world_def ex_absolute_def ex_ok_def ex_payload_def)
  from 1 2 a b show ?thesis by blast
qed

text \<open>
  C9, as amended. \<open>JobStatus\<close> is Go's \<open>string\<close>, and the code converts the status text of
  the payload without looking at it. So the status of the job that a submission
  returns, and the status of a job after a poll that went through, is the status text
  of the payload as it came: it is one of the five named values exactly when the
  service sent one of them.
\<close>

theorem status_copied_from_response:
  "((doImageRequest req w = (w', Inr job) \<or>
     ImageRequest lib c img filename params w = (w', params', Inr job) \<or>
     RemoteImageRequest lib c url params w = (w', params', Inr job)) \<longrightarrow>
    (\<exists>resp r. transport w (length (sent w)) = Inr resp \<and> Decoded resp = Inr r \<and>
       Status job = rStatus r \<and>
       (Status job \<in> set JobStatuses \<longleftrightarrow> rStatus r \<in> set JobStatuses))) \<and>
   (UpdateJob lib c job0 w = (w', job', None) \<and> sent w' \<noteq> sent w \<longrightarrow>
    (\<exists>resp r. transport w (length (sent w)) = Inr resp \<and> Decoded resp = Inr r \<and>
       Status job' = rStatus r \<and>
       (Status job' \<in> set JobStatuses \<longleftrightarrow> rStatus r \<in> set JobStatuses)))"
proof (intro conjI impI)
  assume a: "doImageRequest req w = (w', Inr job) \<or>
     ImageRequest lib c img filename params w = (w', params', Inr job) \<or>
     RemoteImageRequest lib c url params w = (w', params', Inr job)"
  have "\<exists>rq w1. doImageRequest rq w1 = (w', Inr job) \<and> sent w1 = sent w \<and>
           transport w1 = transport w"
    using a ImageRequest_ok RemoteImageRequest_ok by blast
  then obtain rq w1 where d: "doImageRequest rq w1 = (w', Inr job)" and s: "sent w1 = sent w"
    "transport w1 = transport w" by blast
  from doImageRequest_ok[OF d] s obtain resp r where
    "transport w (length (sent w)) = Inr resp" "Decoded resp = Inr r"
    "Status job = rStatus r" by auto
  then show "\<exists>resp r. transport w (length (sent w)) = Inr resp \<and> Decoded resp = Inr r \<and>
       Status job = rStatus r \<and>
       (Status job \<in> set JobStatuses \<longleftrightarrow> rStatus r \<in> set JobStatuses)"
    by simp
next
  assume a: "UpdateJob lib c job0 w = (w', job', None) \<and> sent w' \<noteq> sent w"
  from UpdateJob_polls[of lib c job0 w w' job' None] a obtain wa rq where
    u: "updateJobFromRequest job0 rq wa = (w', job', None)" and s: "sent wa = sent w"
    "transport wa = transport w" by blast
  from updateJobFromRequest_ok[OF u] s obtain resp r where
    "transport w (length (sent w)) = Inr resp" "Decoded resp = Inr r"
    "Status job' = rStatus r" by auto
  then show "\<exists>resp r. transport w (length (sent w)) = Inr resp \<and> Decoded resp = Inr r \<and>
       Status job' = rStatus r \<and>
       (Status job' \<in> set JobStatuses \<longleftrightarrow> rStatus r \<in> set JobStatuses)"
    by simp
qed

theorem status_copied_from_response_witness:
  "\<exists>w' job'. UpdateJob ex_lib ex_simple (ex_job StatusNotCompleted) (ex_world ex_transport)
       = (w', job', None) \<and> sent w' \<noteq> sent (ex_world ex_transport) \<and>
     Status job' = ''not completed'' \<and> Status job' \<in> set JobStatuses"
proof -
  have "\<exists>w' job'. UpdateJob ex_lib ex_simple (ex_job StatusNotCompleted) (ex_world ex_transport)
       = (w', job', None) \<and> sent w' \<noteq> sent (ex_world ex_transport)"
    by (simp add: ex_eval ex_transport_def StatusNotCompleted_def)
  then obtain w' job' where
    u: "UpdateJob ex_lib ex_simple (ex_job StatusNotCompleted) (ex_world ex_transport)
       = (w', job', None)" and s: "sent w' \<noteq> sent (ex_world ex_transport)"
    by blast
  from status_copied_from_response [THEN conjunct2, rule_format, OF conjI [OF u s]]
  have "Status job' = ''not completed'' \<and> Status job' \<in> set JobStatuses"
    by (auto simp: ex_world_def ex_transport_def ex_ok_def ex_payload_def JobStatuses_def
        StatusNotCompleted_def)
  with u s show ?thesis by blast
qed

text \<open>
  The claim as stated fails where the service answers with another text: after a poll,
  and after a submission, the job's status is \<open>bogus\<close>, none of the five.
\<close>

theorem status_not_closed_counterexample:
  "snd (UpdateJob ex_lib ex_simple (ex_job StatusNotCompleted) (ex_world ex_bogus))
     = ((ex_job StatusNotCompleted)
          \<lparr>Categories := [''cat'', ''animal''], Name := ''a cat'', Status := ''bogus'',
           TTL := 54\<rparr>, None) \<and>
   \<not> isl (snd (snd (RemoteImageRequest ex_lib ex_simple ex_image_url None (ex_world ex_bogus)))) \<and>
   Status (projr (snd (snd (RemoteImageRequest ex_lib ex_simple ex_image_url None
                              (ex_world ex_bogus))))) = ''bogus'' \<and>
   ''bogus'' \<notin> set JobStatuses"
  by (simp add: ex_eval JobStatuses_def StatusNotCompleted_def StatusCompleted_def
      StatusNotFound_def StatusSkipped_def StatusTimeout_def)

text \<open>
  C10, as amended. For a non-nil map \<open>p\<close>, every call of \<open>RemoteImageRequest\<close>, and every
  call of \<open>ImageRequest\<close> whose image was read without error, leaves in the caller's map
  the locale \<open>en-US\<close> when \<open>p\<close> had none and the caller's own locale when it had one,
  whatever the call returns; and the request it sends, if it sends one, carries a body
  built from a map with that same locale. The insertion comes before signing and
  sending: unless \<open>http.NewRequest\<close> refuses the address (then nothing is signed or
  sent), the call signs exactly the map \<open>p\<close> with the default locale put in where
  \<open>p\<close> had none (and, for \<open>RemoteImageRequest\<close>, with the image address), in the world as
  it was at the call; what signing leaves in that map is what the caller sees; when
  signing fails the call returns its error and sends nothing; when it succeeds the one
  request sent carries the header signing returned as its \<open>Authorization\<close> and a body
  built from that same map. When reading the image fails, \<open>ImageRequest\<close> returns the
  read error before it touches the map or the world.
\<close>

theorem submission_inserts_locale:
  "(RemoteImageRequest lib c url (Some p) w = (w', params', r) \<longrightarrow>
      (\<exists>p'. params' = Some p' \<and>
         (p ''image_request[locale]'' = None \<longrightarrow> p' ''image_request[locale]'' = Some ''en-US'') \<and>
         (\<forall>v. p ''image_request[locale]'' = Some v \<longrightarrow> p' ''image_request[locale]'' = Some v) \<and>
         (sent w' = sent w \<or>
          (\<exists>t req q. sent w' = sent w @ [(t, req)] \<and> req_Body req = Some (Encode lib q) \<and>
             q ''image_request[locale]'' = p' ''image_request[locale]''))) \<and>
      ((\<not> url_parses lib requestsURL \<and> w' = w \<and> r = Inl (NewRequestError requestsURL)) \<or>
       (\<exists>w1 err.
          getAuthHeader lib c ''POST'' requestsURL
            (Some ((if p ''image_request[locale]'' = None
                    then p(''image_request[locale]'' \<mapsto> ''en-US'') else p)
                   (''image_request[remote_image_url]'' \<mapsto> url))) w
            = (w1, params', Inl err) \<and>
          r = Inl err \<and> sent w' = sent w) \<or>
       (\<exists>w1 auth t req.
          getAuthHeader lib c ''POST'' requestsURL
            (Some ((if p ''image_request[locale]'' = None
                    then p(''image_request[locale]'' \<mapsto> ''en-US'') else p)
                   (''image_request[remote_image_url]'' \<mapsto> url))) w
            = (w1, params', Inr auth) \<and>
          sent w' = sent w @ [(t, req)] \<and>
          req_Header req ''Authorization'' = Some [auth] \<and>
          req_Body req
            = Some (Encode lib
                ((if p ''image_request[locale]'' = None
                  then p(''image_request[locale]'' \<mapsto> ''en-US'') else p)
                 (''image_request[remote_image_url]'' \<mapsto> url)))))) \<and>
   (ImageRequest lib c (Inr content) filename (Some p) w = (w', params', r) \<longrightarrow>
      (\<exists>p'. params' = Some p' \<and>
         (p ''image_request[locale]'' = None \<longrightarrow> p' ''image_request[locale]'' = Some ''en-US'') \<and>
         (\<forall>v. p ''image_request[locale]'' = Some v \<longrightarrow> p' ''image_request[locale]'' = Some v) \<and>
         (sent w' = sent w \<or>
          (\<exists>t req q. sent w' = sent w @ [(t, req)] \<and>
             req_Body req = Some (multipart_form lib filename content q) \<and>
             q ''image_request[locale]'' = p' ''image_request[locale]''))) \<and>
      ((\<not> url_parses lib requestsURL \<and> w' = w \<and> r = Inl (NewRequestError requestsURL)) \<or>
       (\<exists>w1 err.
          getAuthHeader lib c ''POST'' requestsURL
            (Some (if p ''image_request[locale]'' = None
                   then p(''image_request[locale]'' \<mapsto> ''en-US'') else p)) w
            = (w1, params', Inl err) \<and>
          r = Inl err \<and> sent w' = sent w) \<or>
       (\<exists>w1 auth t req.
          getAuthHeader lib c ''POST'' requestsURL
            (Some (if p ''image_request[locale]'' = None
                   then p(''image_request[locale]'' \<mapsto> ''en-US'') else p)) w
            = (w1, params', Inr auth) \<and>
          sent w' = sent w @ [(t, req)] \<and>
          req_Header req ''Authorization'' = Some [auth] \<and>
          req_Body req
            = Some (multipart_form lib filename content
                (if p ''image_request[locale]'' = None
                 then p(''image_request[locale]'' \<mapsto> ''en-US'') else p))))) \<and>
   ImageRequest lib c (Inl err) filename params w = (w, params, Inl (ReadError err))"
proof (intro conjI impI)
  assume a: "RemoteImageRequest lib c url (Some p) w = (w', params', r)"
  from RemoteImageRequest_params[OF a] obtain p' where
    p: "params' = Some p'"
       "p' ''image_request[locale]''
          = Some (case p ''image_request[locale]'' of None \<Rightarrow> DefaultLocale | Some v \<Rightarrow> v)"
       "sent w' = sent w \<or>
        (\<exists>t req q. sent w' = sent w @ [(t, req)] \<and> req_Body req = Some (Encode lib q) \<and>
           q ''image_request[locale]'' = p' ''image_request[locale]'')"
    by blast
  from p(2) have "(p ''image_request[locale]'' = None \<longrightarrow> p' ''image_request[locale]'' = Some ''en-US'') \<and>
         (\<forall>v. p ''image_request[locale]'' = Some v \<longrightarrow> p' ''image_request[locale]'' = Some v)"
    by (simp add: DefaultLocale_def split: option.splits)
  with p(1,3) show "\<exists>p'. params' = Some p' \<and>
         (p ''image_request[locale]'' = None \<longrightarrow> p' ''image_request[locale]'' = Some ''en-US'') \<and>
         (\<forall>v. p ''image_request[locale]'' = Some v \<longrightarrow> p' ''image_request[locale]'' = Some v) \<and>
         (sent w' = sent w \<or>
          (\<exists>t req q. sent w' = sent w @ [(t, req)] \<and> req_Body req = Some (Encode lib q) \<and>
             q ''image_request[locale]'' = p' ''image_request[locale]''))"
    by simp
  show "(\<not> url_parses lib requestsURL \<and> w' = w \<and> r = Inl (NewRequestError requestsURL)) \<or>
       (\<exists>w1 err.
          getAuthHeader lib c ''POST'' requestsURL
            (Some ((if p ''image_request[locale]'' = None
                    then p(''image_request[locale]'' \<mapsto> ''en-US'') else p)
                   (''image_request[remote_image_url]'' \<mapsto> url))) w
            = (w1, params', Inl err) \<and>
          r = Inl err \<and> sent w' = sent w) \<or>
       (\<exists>w1 auth t req.
          getAuthHeader lib c ''POST'' requestsURL
            (Some ((if p ''image_request[locale]'' = None
                    then p(''image_request[locale]'' \<mapsto> ''en-US'') else p)
                   (''image_request[remote_image_url]'' \<mapsto> url))) w
            = (w1, params', Inr auth) \<and>
          sent w' = sent w @ [(t, req)] \<and>
          req_Header req ''Authorization'' = Some [auth] \<and>
          req_Body req
            = Some (Encode lib
                ((if p ''image_request[locale]'' = None
                  then p(''image_request[locale]'' \<mapsto> ''en-US'') else p)
                 (''image_request[remote_image_url]'' \<mapsto> url))))"
  proof (cases "url_parses lib requestsURL")
    case False
    with a have "w' = w \<and> r = Inl (NewRequestError requestsURL)"
      by (auto simp: RemoteImageRequest_def Let_def)
    with False show ?thesis by simp
  next
    case True
    from RemoteImageRequest_signs [unfolded DefaultLocale_def, OF a True]
    show ?thesis by (rule disjI2)
  qed
next
  assume a: "ImageRequest lib c (Inr content) filename (Some p) w = (w', params', r)"
  from ImageRequest_params[OF a] obtain p' where
    p: "params' = Some p'"
       "p' ''image_request[locale]''
          = Some (case p ''image_request[locale]'' of None \<Rightarrow> DefaultLocale | Some v \<Rightarrow> v)"
       "sent w' = sent w \<or>
        (\<exists>t req q. sent w' = sent w @ [(t, req)] \<and>
           req_Body req = Some (multipart_form lib filename content q) \<and>
           q ''image_request[locale]'' = p' ''image_request[locale]'')"
    by blast
  from p(2) have "(p ''image_request[locale]'' = None \<longrightarrow> p' ''image_request[locale]'' = Some ''en-US'') \<and>
         (\<forall>v. p ''image_request[locale]'' = Some v \<longrightarrow> p' ''image_request[locale]'' = Some v)"
    by (simp add: DefaultLocale_def split: option.splits)
  with p(1,3) show "\<exists>p'. params' = Some p' \<and>
         (p ''image_request[locale]'' = None \<longrightarrow> p' ''image_request[locale]'' = Some ''en-US'') \<and>
         (\<forall>v. p ''image_request[locale]'' = Some v \<longrightarrow> p' ''image_request[locale]'' = Some v) \<and>
         (sent w' = sent w \<or>
          (\<exists>t req q. sent w' = sent w @ [(t, req)] \<and>
             req_Body req = Some (multipart_form lib filename content q) \<and>
             q ''image_request[locale]'' = p' ''image_request[locale]''))"
    by simp
  show "(\<not> url_parses lib requestsURL \<and> w' = w \<and> r = Inl (NewRequestError requestsURL)) \<or>
       (\<exists>w1 err.
          getAuthHeader lib c ''POST'' requestsURL
            (Some (if p ''image_request[locale]'' = None
                   then p(''image_request[locale]'' \<mapsto> ''en-US'') else p)) w
            = (w1, params', Inl err) \<and>
          r = Inl err \<and> sent w' = sent w) \<or>
       (\<exists>w1 auth t req.
          getAuthHeader lib c ''POST'' requestsURL
            (Some (if p ''image_request[locale]'' = None
                   then p(''image_request[locale]'' \<mapsto> ''en-US'') else p)) w
            = (w1, params', Inr auth) \<and>
          sent w' = sent w @ [(t, req)] \<and>
          req_Header req ''Authorization'' = Some [auth] \<and>
          req_Body req
            = Some (multipart_form lib filename content
                (if p ''image_request[locale]'' = None
                 then p(''image_request[locale]'' \<mapsto> ''en-US'') else p)))"
  proof (cases "url_parses lib requestsURL")
    case False
    with a have "w' = w \<and> r = Inl (NewRequestError requestsURL)"
      by (auto simp: ImageRequest_def Let_def)
    with False show ?thesis by simp
  next
    case True
    from ImageRequest_signs [unfolded DefaultLocale_def, OF a True]
    show ?thesis by (rule disjI2)
  qed
next
  show "ImageRequest lib c (Inl err) filename params w = (w, params, Inl (ReadError err))"
    by (simp add: ImageRequest_def)
qed

theorem submission_inserts_locale_witness:
  "(\<exists>w' p' r. RemoteImageRequest ex_lib ex_oauth ex_image_url (Some Map.empty)
       (ex_world ex_pending) = (w', Some p', r) \<and>
       p' ''image_request[locale]'' = Some ''en-US'' \<and>
       (\<exists>w1 auth t req.
          getAuthHeader ex_lib ex_oauth ''POST'' requestsURL
            (Some [''image_request[locale]'' \<mapsto> ''en-US'',
                   ''image_request[remote_image_url]'' \<mapsto> ex_image_url])
            (ex_world ex_pending) = (w1, Some p', Inr auth) \<and>
          sent w' = [(t, req)] \<and>
          req_Header req ''Authorization'' = Some [auth] \<and>
          req_Body req = Some ''en-US'' \<and>
          auth = ''OAuth '' @
                 Join [quoted ''oauth_consumer_key'' ''api-key'',
                       quoted ''oauth_nonce'' ''c0ffee'',
                       quoted ''oauth_signature''
                         ''POST&https://api.cloudsightapi.com/image_requests&en-US'',
                       quoted ''oauth_signature_method'' ''HMAC-SHA1'',
                       quoted ''oauth_timestamp'' ''1'',
                       quoted ''oauth_version'' ''1.0''] '', '')) \<and>
   (\<exists>w' p' r. ImageRequest ex_lib ex_oauth (Inr ''JFIF'') ''cat.jpg''
       (Some [''image_request[locale]'' \<mapsto> ''en'']) (ex_world ex_pending) = (w', Some p', r) \<and>
       p' ''image_request[locale]'' = Some ''en'' \<and>
       (\<exists>w1 auth t req.
          getAuthHeader ex_lib ex_oauth ''POST'' requestsURL
            (Some [''image_request[locale]'' \<mapsto> ''en'']) (ex_world ex_pending)
            = (w1, Some p', Inr auth) \<and>
          sent w' = [(t, req)] \<and>
          req_Header req ''Authorization'' = Some [auth]))"
proof -
  let ?w = "ex_world ex_pending"
  have u: "url_parses ex_lib requestsURL" by (simp add: ex_lib_def)
  have s0: "sent ?w = []" by (simp add: ex_world_def)
  obtain w1 ps1 r1 where 1: "RemoteImageRequest ex_lib ex_oauth ex_image_url (Some Map.empty)
       ?w = (w1, ps1, r1)"
    by (cases "RemoteImageRequest ex_lib ex_oauth ex_image_url (Some Map.empty) ?w") auto
  obtain w2 ps2 r2 where 2: "ImageRequest ex_lib ex_oauth (Inr ''JFIF'') ''cat.jpg''
       (Some [''image_request[locale]'' \<mapsto> ''en'']) ?w = (w2, ps2, r2)"
    by (cases "ImageRequest ex_lib ex_oauth (Inr ''JFIF'') ''cat.jpg''
       (Some [''image_request[locale]'' \<mapsto> ''en'']) ?w") auto
  note A = submission_inserts_locale [THEN conjunct1, rule_format, OF 1]
  note B = submission_inserts_locale [THEN conjunct2, THEN conjunct1, rule_format, OF 2]
  from A obtain p1 where a: "ps1 = Some p1" "p1 ''image_request[locale]'' = Some ''en-US''"
    by auto
  from B obtain p2 where b: "ps2 = Some p2" "p2 ''image_request[locale]'' = Some ''en''"
    by auto
  have a': "\<exists>wa auth t req.
          getAuthHeader ex_lib ex_oauth ''POST'' requestsURL
            (Some [''image_request[locale]'' \<mapsto> ''en-US'',
                   ''image_request[remote_image_url]'' \<mapsto> ex_image_url]) ?w
            = (wa, Some p1, Inr auth) \<and>
          sent w1 = [(t, req)] \<and>
          req_Header req ''Authorization'' = Some [auth] \<and>
          req_Body req = Some ''en-US'' \<and>
          auth = ''OAuth '' @
                 Join [quoted ''oauth_consumer_key'' ''api-key'',
                       quoted ''oauth_nonce'' ''c0ffee'',
                       quoted ''oauth_signature''
                         ''POST&https://api.cloudsightapi.com/image_requests&en-US'',
                       quoted ''oauth_signature_method'' ''HMAC-SHA1'',
                       quoted ''oauth_timestamp'' ''1'',
                       quoted ''oauth_version'' ''1.0''] '', ''"
    using A [THEN conjunct2] u a(1) s0 ex_header
    by (auto simp: ex_lib_def lookup_def)
  have b': "\<exists>wa auth t req.
          getAuthHeader ex_lib ex_oauth ''POST'' requestsURL
            (Some [''image_request[locale]'' \<mapsto> ''en'']) ?w = (wa, Some p2, Inr auth) \<and>
          sent w2 = [(t, req)] \<and>
          req_Header req ''Authorization'' = Some [auth]"
    using B [THEN conjunct2] u b(1) s0 ex_signs [of "[''image_request[locale]'' \<mapsto> ''en'']"]
    by auto
  from 1 2 a b a' b' show ?thesis by blast
qed

text \<open>
  The claim as stated fails for \<open>ImageRequest\<close> with an image that cannot be read: the
  caller's empty map comes back empty.
\<close>

theorem ImageRequest_unread_image_counterexample:
  "ImageRequest ex_lib ex_simple (Inl ''unexpected EOF'') ''cat.jpg'' (Some Map.empty)
     (ex_world ex_pending)
   = (ex_world ex_pending, Some Map.empty, Inl (ReadError ''unexpected EOF''))"
  by (simp add: ImageRequest_def)

end
